theory Spec2Isabelle
  imports Complex_Main
begin

section \<open>The WebSocket client of src/lib/websocket/WebSocketClient.ts\<close>

text \<open>
  The class \<^verbatim>\<open>WebSocketClient\<close> is embedded as a record of its private fields together
  with the part of the host runtime it drives: the sockets it has created, the timers it
  has armed, and the sequence of dispatches and transmissions it has caused. Every method is
  a function from the record to the updated record. A method that can throw returns an
  \<open>outcome\<close> next to the state.

  The three handler sets are not part of the record: a dispatch is recorded as such, for
  whichever handlers are registered at that moment, and a handler only observes (the
  code catches what a handler throws). \<^verbatim>\<open>destroy\<close>, the subscription methods and console
  output are not modelled.

\<close>

subsection \<open>JavaScript numbers\<close>

text \<open>
  A JavaScript number is a real, one of the two infinities, or NaN. A finite result of
  magnitude \<open>2^1024 - 2^970\<close> or more (where IEEE doubles round to an infinity) becomes
  the infinity of its sign. Below that bound finite results are kept exact: rounding to
  the nearest double and underflow are not modelled, and \<open>-0\<close> is not told apart from \<open>0\<close>.
\<close>

datatype number = Num real | Infinity | MinusInfinity | NaN

definition overflowBound :: real where
  "overflowBound = 2 ^ 1024 - 2 ^ 970"

definition toNumber :: "real \<Rightarrow> number" where
  "toNumber x =
     (if overflowBound \<le> x then Infinity
      else if x \<le> - overflowBound then MinusInfinity
      else Num x)"

text \<open>The comparisons \<^verbatim>\<open>a <= b\<close> and \<^verbatim>\<open>a < b\<close>; \<^verbatim>\<open>a >= b\<close> is \<open>js_le b a\<close>. Every comparison
  with NaN is false.\<close>

fun js_le :: "number \<Rightarrow> number \<Rightarrow> bool" where
  "js_le NaN b = False"
| "js_le a NaN = False"
| "js_le MinusInfinity b = True"
| "js_le a Infinity = True"
| "js_le (Num x) (Num y) = (x \<le> y)"
| "js_le a b = False"

fun js_lt :: "number \<Rightarrow> number \<Rightarrow> bool" where
  "js_lt NaN b = False"
| "js_lt a NaN = False"
| "js_lt (Num x) (Num y) = (x < y)"
| "js_lt a MinusInfinity = False"
| "js_lt Infinity b = False"
| "js_lt a b = True"

text \<open>\<^verbatim>\<open>a * b\<close>\<close>

fun js_mul :: "number \<Rightarrow> number \<Rightarrow> number" where
  "js_mul NaN b = NaN"
| "js_mul a NaN = NaN"
| "js_mul (Num x) (Num y) = toNumber (x * y)"
| "js_mul (Num x) Infinity = (if x = 0 then NaN else if 0 < x then Infinity else MinusInfinity)"
| "js_mul (Num x) MinusInfinity =
     (if x = 0 then NaN else if 0 < x then MinusInfinity else Infinity)"
| "js_mul Infinity (Num y) = (if y = 0 then NaN else if 0 < y then Infinity else MinusInfinity)"
| "js_mul MinusInfinity (Num y) =
     (if y = 0 then NaN else if 0 < y then MinusInfinity else Infinity)"
| "js_mul Infinity Infinity = Infinity"
| "js_mul Infinity MinusInfinity = MinusInfinity"
| "js_mul MinusInfinity Infinity = MinusInfinity"
| "js_mul MinusInfinity MinusInfinity = Infinity"

text \<open>\<^verbatim>\<open>Math.pow(b, e)\<close> for an exponent that is an integer, as the difference
  \<^verbatim>\<open>this.reconnectAttempts - 1\<close> always is: exponent 0 gives 1 for every base, also NaN.\<close>

definition Math_pow :: "number \<Rightarrow> int \<Rightarrow> number" where
  "Math_pow b e =
     (if e = 0 then Num 1
      else
        (case b of
           NaN \<Rightarrow> NaN
         | Infinity \<Rightarrow> (if 0 < e then Infinity else Num 0)
         | MinusInfinity \<Rightarrow>
             (if 0 < e then (if odd e then MinusInfinity else Infinity) else Num 0)
         | Num x \<Rightarrow>
             (if x = 0 then (if 0 < e then Num 0 else Infinity)
              else toNumber (x powi e))))"

text \<open>\<^verbatim>\<open>Math.min(a, b)\<close>: NaN if either argument is.\<close>

definition Math_min :: "number \<Rightarrow> number \<Rightarrow> number" where
  "Math_min a b = (if a = NaN \<or> b = NaN then NaN else if js_le a b then a else b)"

subsection \<open>Data\<close>

datatype connection_state = Idle | Connecting | Connected | Reconnecting | Disconnected | Error

record connection_status =
  state :: connection_state
  error :: "string option"
  reconnectAttempt :: "nat option"
  lastConnected :: "nat option"

text \<open>\<^verbatim>\<open>WebSocketConfig\<close>, with the nested objects \<^verbatim>\<open>reconnect\<close>, \<^verbatim>\<open>heartbeat\<close> and
  \<^verbatim>\<open>messageQueue\<close> flattened into prefixed fields.\<close>

record websocket_config =
  url :: string
  reconnect_enabled :: bool
  reconnect_maxAttempts :: number
  reconnect_initialDelay :: number
  reconnect_maxDelay :: number
  reconnect_backoffMultiplier :: number
  heartbeat_enabled :: bool
  heartbeat_interval :: number
  heartbeat_timeout :: number
  messageQueue_enabled :: bool
  messageQueue_maxSize :: number

text \<open>Outbound messages: the \<^verbatim>\<open>init\<close> message (session id, user agent, timestamp), the
  \<^verbatim>\<open>ping\<close> message (timestamp), and any message of the caller (type and payload).\<close>

datatype client_message =
    Init string string nat
  | Ping nat
  | App string string

text \<open>Inbound frames: \<open>Unparseable\<close> is a frame on which \<^verbatim>\<open>JSON.parse(event.data)\<close> or
  the read of \<^verbatim>\<open>message.type\<close> throws; \<open>Parsed\<close> carries the \<^verbatim>\<open>type\<close> field (absent
  when the parsed value has none) and the rest of the payload.\<close>

datatype server_message = ServerMessage (mtype: "string option") (payload: string)

datatype frame = Unparseable | Parsed server_message

text \<open>The host's \<^verbatim>\<open>WebSocket\<close> objects. \<open>Keyed base key\<close> stands for the address
  \<^verbatim>\<open>`${base}?api_key=${encodeURIComponent(key)}`\<close>. \<open>openTimeout\<close> is the timer that the
  \<^verbatim>\<open>once\<close> listener registered in \<^verbatim>\<open>connect\<close> clears when this socket opens.\<close>

datatype ready_state = CONNECTING | OPEN | CLOSING | CLOSED

datatype address = Plain string | Keyed string string

record socket =
  address :: address
  readyState :: ready_state
  openTimeout :: nat

text \<open>The callbacks handed to \<^verbatim>\<open>setTimeout\<close> and \<^verbatim>\<open>setInterval\<close>, each with its delay.\<close>

datatype timer =
    ConnectionTimeout number
  | ReconnectTimer number
  | HeartbeatInterval number
  | HeartbeatTimeout number

text \<open>What leaves the client, in the order it leaves: a dispatch to the
  connection-change, error or message handlers registered at that moment, a frame handed to
  \<^verbatim>\<open>ws.send\<close> of a socket, and a timer started with \<^verbatim>\<open>setTimeout\<close> or \<^verbatim>\<open>setInterval\<close> (with
  the identifier the host gave it).\<close>

datatype emission =
    ConnectionChange connection_status
  | ErrorEvent string
  | MessageEvent server_message
  | Transmitted nat client_message
  | TimerStarted nat timer

datatype 'a outcome = Returned 'a | Thrown string

record client =
  config :: websocket_config
  sessionId :: string
  ws :: "nat option"
  connectionStatus :: connection_status
  reconnectAttempts :: nat
  reconnectTimer :: "nat option"
  isIntentionalClose :: bool
  heartbeatTimer :: "nat option"
  heartbeatTimeoutTimer :: "nat option"
  messageQueue :: "client_message list"
  sockets :: "socket list"
  timers :: "(nat \<times> timer) list"
  nextTimer :: nat
  emitted :: "emission list"
  now :: nat
  userAgent :: string
  apiKey :: string
  openFailure :: "string option"
  sendFailure :: "client_message \<Rightarrow> string option"

text \<open>The last five fields are what the client reads from its surroundings: the clock,
  \<^verbatim>\<open>navigator.userAgent\<close>, the stored key (\<open>''''\<close> when there is none), whether the
  \<^verbatim>\<open>try\<close> block of \<^verbatim>\<open>connect\<close> throws (and with which message), and for which messages
  \<^verbatim>\<open>this.ws.send(JSON.stringify(message))\<close> throws.\<close>

definition initial :: "websocket_config \<Rightarrow> string \<Rightarrow> client" where
  "initial cfg sid =
     \<lparr> config = cfg, sessionId = sid, ws = None,
       connectionStatus = \<lparr> state = Idle, error = None, reconnectAttempt = None,
                            lastConnected = None \<rparr>,
       reconnectAttempts = 0, reconnectTimer = None, isIntentionalClose = False,
       heartbeatTimer = None, heartbeatTimeoutTimer = None, messageQueue = [],
       sockets = [], timers = [], nextTimer = 1, emitted = [],
       now = 0, userAgent = [], apiKey = [], openFailure = None,
       sendFailure = (\<lambda>m. None) \<rparr>"

subsection \<open>Host runtime: timers and sockets\<close>

definition setTimer :: "timer \<Rightarrow> client \<Rightarrow> client" where
  "setTimer t s =
     s\<lparr> timers := timers s @ [(nextTimer s, t)], nextTimer := Suc (nextTimer s),
        emitted := emitted s @ [TimerStarted (nextTimer s) t] \<rparr>"

definition clearTimer :: "nat \<Rightarrow> client \<Rightarrow> client" where
  "clearTimer i s = s\<lparr> timers := filter (\<lambda>p. fst p \<noteq> i) (timers s) \<rparr>"

definition readyStateOf :: "client \<Rightarrow> nat \<Rightarrow> ready_state" where
  "readyStateOf s k = (if k < length (sockets s) then readyState (sockets s ! k) else CLOSED)"

definition setReadyState :: "nat \<Rightarrow> ready_state \<Rightarrow> client \<Rightarrow> client" where
  "setReadyState k r s =
     (if k < length (sockets s)
      then s\<lparr> sockets := (sockets s)[k := (sockets s ! k)\<lparr> readyState := r \<rparr>] \<rparr>
      else s)"

text \<open>\<^verbatim>\<open>socket.close()\<close>: a socket that is connecting or open starts closing, its close
  event comes later; on a closing or closed socket the call does nothing.\<close>

definition closeSocket :: "nat \<Rightarrow> client \<Rightarrow> client" where
  "closeSocket k s =
     (if readyStateOf s k = CONNECTING \<or> readyStateOf s k = OPEN
      then setReadyState k CLOSING s else s)"

text \<open>\<^verbatim>\<open>this.ws?.close()\<close>\<close>

definition closeCurrent :: "client \<Rightarrow> client" where
  "closeCurrent s = (case ws s of None \<Rightarrow> s | Some k \<Rightarrow> closeSocket k s)"

subsection \<open>State management and dispatch\<close>

definition updateConnectionStatus ::
  "connection_state \<Rightarrow> string option \<Rightarrow> nat option \<Rightarrow> client \<Rightarrow> client" where
  "updateConnectionStatus st err att s =
     (let cs = \<lparr> state = st, error = err, reconnectAttempt = att,
                 lastConnected = (if st = Connected then Some (now s)
                                  else lastConnected (connectionStatus s)) \<rparr>
      in s\<lparr> connectionStatus := cs, emitted := emitted s @ [ConnectionChange cs] \<rparr>)"

definition emitError :: "string \<Rightarrow> client \<Rightarrow> client" where
  "emitError e s = s\<lparr> emitted := emitted s @ [ErrorEvent e] \<rparr>"

definition isConnected :: "client \<Rightarrow> bool" where
  "isConnected s = (case ws s of None \<Rightarrow> False | Some k \<Rightarrow> readyStateOf s k = OPEN)"

subsection \<open>Message queue and sending\<close>

definition queueMessage :: "client_message \<Rightarrow> client \<Rightarrow> client" where
  "queueMessage m s =
     (let q = (if js_le (messageQueue_maxSize (config s)) (Num (real (length (messageQueue s))))
               then drop 1 (messageQueue s) else messageQueue s)
      in s\<lparr> messageQueue := q @ [m] \<rparr>)"

definition sendMessage :: "client_message \<Rightarrow> client \<Rightarrow> bool outcome \<times> client" where
  "sendMessage m s =
     (if \<not> isConnected s then
        (if messageQueue_enabled (config s) then (Returned False, queueMessage m s)
         else (Thrown ''WebSocket not connected and message queue disabled'', s))
      else
        (case sendFailure s m of
           None \<Rightarrow>
             (case ws s of
                Some k \<Rightarrow> (Returned True, s\<lparr> emitted := emitted s @ [Transmitted k m] \<rparr>)
              | None \<Rightarrow> (Returned True, s))
         | Some e \<Rightarrow> (Returned False, emitError e s)))"

text \<open>The \<^verbatim>\<open>forEach\<close> of \<^verbatim>\<open>flushMessageQueue\<close>: an exception of \<^verbatim>\<open>sendMessage\<close> ends it.\<close>

fun sendEach :: "client_message list \<Rightarrow> client \<Rightarrow> unit outcome \<times> client" where
  "sendEach [] s = (Returned (), s)"
| "sendEach (m # ms) s =
     (case sendMessage m s of
        (Thrown e, s') \<Rightarrow> (Thrown e, s')
      | (Returned b, s') \<Rightarrow> sendEach ms s')"

definition flushMessageQueue :: "client \<Rightarrow> unit outcome \<times> client" where
  "flushMessageQueue s =
     (if messageQueue s = [] then (Returned (), s)
      else sendEach (messageQueue s) (s\<lparr> messageQueue := [] \<rparr>))"

subsection \<open>Heartbeat\<close>

definition stopHeartbeat :: "client \<Rightarrow> client" where
  "stopHeartbeat s =
     (let s1 = (case heartbeatTimer s of None \<Rightarrow> s
                | Some i \<Rightarrow> (clearTimer i s)\<lparr> heartbeatTimer := None \<rparr>)
      in (case heartbeatTimeoutTimer s1 of None \<Rightarrow> s1
          | Some i \<Rightarrow> (clearTimer i s1)\<lparr> heartbeatTimeoutTimer := None \<rparr>))"

definition startHeartbeat :: "client \<Rightarrow> client" where
  "startHeartbeat s =
     (let s1 = stopHeartbeat s
      in (setTimer (HeartbeatInterval (heartbeat_interval (config s1))) s1)
           \<lparr> heartbeatTimer := Some (nextTimer s1) \<rparr>)"

text \<open>The callback of the interval timer.\<close>

definition heartbeatTick :: "client \<Rightarrow> client" where
  "heartbeatTick s =
     (if isConnected s then
        (case sendMessage (Ping (now s)) s of
           (Thrown e, s1) \<Rightarrow> s1
         | (Returned b, s1) \<Rightarrow>
             (setTimer (HeartbeatTimeout (heartbeat_timeout (config s1))) s1)
               \<lparr> heartbeatTimeoutTimer := Some (nextTimer s1) \<rparr>)
      else s)"

definition handlePong :: "client \<Rightarrow> client" where
  "handlePong s =
     (case heartbeatTimeoutTimer s of None \<Rightarrow> s
      | Some i \<Rightarrow> (clearTimer i s)\<lparr> heartbeatTimeoutTimer := None \<rparr>)"

subsection \<open>Reconnection\<close>

definition calculateBackoffDelay :: "client \<Rightarrow> number" where
  "calculateBackoffDelay s =
     (let delay = js_mul (reconnect_initialDelay (config s))
                    (Math_pow (reconnect_backoffMultiplier (config s))
                       (int (reconnectAttempts s) - 1))
      in Math_min delay (reconnect_maxDelay (config s)))"

definition handleReconnect :: "client \<Rightarrow> client" where
  "handleReconnect s =
     (if \<not> reconnect_enabled (config s) \<or> isIntentionalClose s then s
      else if js_le (reconnect_maxAttempts (config s)) (Num (real (reconnectAttempts s))) then
        updateConnectionStatus Error (Some ''Max reconnection attempts reached'') None s
      else
        (let s1 = s\<lparr> reconnectAttempts := Suc (reconnectAttempts s) \<rparr>;
             delay = calculateBackoffDelay s1;
             s2 = (setTimer (ReconnectTimer delay) s1)\<lparr> reconnectTimer := Some (nextTimer s1) \<rparr>
         in updateConnectionStatus Reconnecting None (Some (reconnectAttempts s2)) s2))"

subsection \<open>Public operations\<close>

definition connect :: "client \<Rightarrow> client" where
  "connect s =
     (if isConnected s then s
      else
        (let s1 = updateConnectionStatus Connecting None None (s\<lparr> isIntentionalClose := False \<rparr>)
         in (case openFailure s1 of
               Some e \<Rightarrow>
                 handleReconnect (emitError e (updateConnectionStatus Error (Some e) None s1))
             | None \<Rightarrow>
                 (let target = (if apiKey s1 = [] then Plain (url (config s1))
                                else Keyed (url (config s1)) (apiKey s1));
                      k = length (sockets s1);
                      s2 = s1\<lparr> sockets := sockets s1 @
                                  [\<lparr> address = target, readyState = CONNECTING,
                                     openTimeout = nextTimer s1 \<rparr>],
                               ws := Some k \<rparr>
                  in setTimer (ConnectionTimeout (Num 10000)) s2))))"

definition cleanup :: "client \<Rightarrow> client" where
  "cleanup s =
     (let s1 = stopHeartbeat s;
          s2 = (case reconnectTimer s1 of None \<Rightarrow> s1
                | Some i \<Rightarrow> (clearTimer i s1)\<lparr> reconnectTimer := None \<rparr>)
      in (case ws s2 of None \<Rightarrow> s2
          | Some k \<Rightarrow> (closeSocket k s2)\<lparr> ws := None \<rparr>))"

definition disconnect :: "client \<Rightarrow> client" where
  "disconnect s =
     updateConnectionStatus Disconnected None None (cleanup (s\<lparr> isIntentionalClose := True \<rparr>))"

subsection \<open>Socket event handlers\<close>

definition handleOpen :: "client \<Rightarrow> unit outcome \<times> client" where
  "handleOpen s =
     (let s1 = updateConnectionStatus Connected None None (s\<lparr> reconnectAttempts := 0 \<rparr>)
      in (case sendMessage (Init (sessionId s1) (userAgent s1) (now s1)) s1 of
            (Thrown e, s2) \<Rightarrow> (Thrown e, s2)
          | (Returned b, s2) \<Rightarrow>
              flushMessageQueue
                (if heartbeat_enabled (config s2) then startHeartbeat s2 else s2)))"

definition handleMessage :: "frame \<Rightarrow> client \<Rightarrow> client" where
  "handleMessage f s =
     (case f of
        Unparseable \<Rightarrow> emitError ''Failed to parse server message'' s
      | Parsed m \<Rightarrow>
          (if mtype m = Some ''pong'' then handlePong s
           else s\<lparr> emitted := emitted s @ [MessageEvent m] \<rparr>))"

definition handleError :: "client \<Rightarrow> client" where
  "handleError s = emitError ''WebSocket connection error'' s"

definition handleClose :: "client \<Rightarrow> client" where
  "handleClose s =
     (let s1 = stopHeartbeat s
      in if \<not> isIntentionalClose s1
         then handleReconnect (updateConnectionStatus Reconnecting None None s1)
         else updateConnectionStatus Disconnected None None s1)"

subsection \<open>Timer callbacks\<close>

text \<open>The callback of the connection timeout armed in \<^verbatim>\<open>connect\<close>.\<close>

definition connectionTimeout :: "client \<Rightarrow> client" where
  "connectionTimeout s =
     (if state (connectionStatus s) = Connecting then handleReconnect (closeCurrent s) else s)"

definition fire :: "timer \<Rightarrow> client \<Rightarrow> client" where
  "fire t s =
     (case t of
        ConnectionTimeout d \<Rightarrow> connectionTimeout s
      | ReconnectTimer d \<Rightarrow> connect s
      | HeartbeatInterval d \<Rightarrow> heartbeatTick s
      | HeartbeatTimeout d \<Rightarrow> closeCurrent s)"

subsection \<open>The event loop\<close>

text \<open>
  One turn of the event loop is a call of a public operation, an event of one of the
  sockets the client created (every socket keeps the four listeners of
  \<^verbatim>\<open>setupEventHandlers\<close>, also after \<^verbatim>\<open>this.ws\<close> has moved on), or the expiry of a pending
  timer. An event that the runtime cannot deliver (an open event on a socket that is not
  connecting, any event on a closed socket, a timer that is not pending) leaves the state
  as it is. An exception that escapes a listener ends that listener only.
\<close>

datatype event =
    Call_connect
  | Call_disconnect
  | Call_sendMessage client_message
  | Socket_open nat
  | Socket_message nat frame
  | Socket_error nat
  | Socket_close nat
  | Timer_fires nat

definition step :: "event \<Rightarrow> client \<Rightarrow> client" where
  "step e s =
     (case e of
        Call_connect \<Rightarrow> connect s
      | Call_disconnect \<Rightarrow> disconnect s
      | Call_sendMessage m \<Rightarrow> snd (sendMessage m s)
      | Socket_open k \<Rightarrow>
          (if readyStateOf s k = CONNECTING
           then clearTimer (openTimeout (sockets s ! k))
                  (snd (handleOpen (setReadyState k OPEN s)))
           else s)
      | Socket_message k f \<Rightarrow>
          (if readyStateOf s k = OPEN \<or> readyStateOf s k = CLOSING
           then handleMessage f s else s)
      | Socket_error k \<Rightarrow>
          (if k < length (sockets s) \<and> readyStateOf s k \<noteq> CLOSED then handleError s else s)
      | Socket_close k \<Rightarrow>
          (if k < length (sockets s) \<and> readyStateOf s k \<noteq> CLOSED
           then handleClose (setReadyState k CLOSED s) else s)
      | Timer_fires i \<Rightarrow>
          (case map_of (timers s) i of
             None \<Rightarrow> s
           | Some (HeartbeatInterval d) \<Rightarrow> fire (HeartbeatInterval d) s
           | Some t \<Rightarrow> fire t (clearTimer i s)))"

definition run :: "event list \<Rightarrow> client \<Rightarrow> client" where
  "run es s = foldl (\<lambda>s e. step e s) s es"

subsection \<open>The formula and the observations the properties are stated with\<close>

text \<open>The delay as the specification words it, for attempt number \<open>n\<close>:
  \<^verbatim>\<open>min(maxDelay, initialDelay * backoffMultiplier^(attempt - 1))\<close>.\<close>

definition specified_delay :: "websocket_config \<Rightarrow> nat \<Rightarrow> number" where
  "specified_delay cfg n =
     Math_min (reconnect_maxDelay cfg)
       (js_mul (reconnect_initialDelay cfg) (Math_pow (reconnect_backoffMultiplier cfg) (int (n - 1))))"

text \<open>What one call of \<^verbatim>\<open>sendMessage\<close> over the open socket \<open>k\<close> leaves behind: the
  frame on the wire, or the error event when the transmission throws.\<close>

definition attempt ::
  "(client_message \<Rightarrow> string option) \<Rightarrow> nat \<Rightarrow> client_message \<Rightarrow> emission" where
  "attempt failure k m = (case failure m of None \<Rightarrow> Transmitted k m | Some e \<Rightarrow> ErrorEvent e)"

text \<open>The frames handed to socket \<open>k\<close>, in the order they were handed over.\<close>

fun transmissions :: "nat \<Rightarrow> emission list \<Rightarrow> client_message list" where
  "transmissions k [] = []"
| "transmissions k (Transmitted j m # es) =
     (if j = k then m # transmissions k es else transmissions k es)"
| "transmissions k (e # es) = transmissions k es"

subsection \<open>Concrete configurations and states\<close>

text \<open>The configuration of the specification's scenarios: delays 1000, 5000, factor 2,
  four attempts, a queue of two.\<close>

definition example_config :: websocket_config where
  "example_config =
     \<lparr> url = ''wss://backend/ws'',
       reconnect_enabled = True, reconnect_maxAttempts = Num 4,
       reconnect_initialDelay = Num 1000, reconnect_maxDelay = Num 5000,
       reconnect_backoffMultiplier = Num 2,
       heartbeat_enabled = True, heartbeat_interval = Num 30000, heartbeat_timeout = Num 5000,
       messageQueue_enabled = True, messageQueue_maxSize = Num 2 \<rparr>"

abbreviation msgA :: client_message where "msgA \<equiv> App ''message'' ''A''"
abbreviation msgB :: client_message where "msgB \<equiv> App ''message'' ''B''"
abbreviation msgC :: client_message where "msgC \<equiv> App ''message'' ''C''"
abbreviation pong :: server_message where "pong \<equiv> ServerMessage (Some ''pong'') []"

definition offline :: client where
  "offline = initial example_config ''session''"

definition offline_unbuffered :: client where
  "offline_unbuffered = initial (example_config\<lparr> messageQueue_maxSize := Num 0 \<rparr>) ''session''"

definition offline_no_queue :: client where
  "offline_no_queue = initial (example_config\<lparr> messageQueue_enabled := False \<rparr>) ''session''"

definition negative_delay :: client where
  "negative_delay =
     initial (example_config\<lparr> reconnect_initialDelay := Num (- 1000) \<rparr>) ''session''"

definition offline_fractional :: client where
  "offline_fractional =
     initial (example_config\<lparr> messageQueue_maxSize := Num (3 / 2) \<rparr>) ''session''"

definition overflowing :: client where
  "overflowing =
     initial (example_config\<lparr> reconnect_initialDelay := Num 0,
                               reconnect_backoffMultiplier := Num (10 ^ 200) \<rparr>) ''session''"

text \<open>A host on which serialising \<open>msgA\<close> throws.\<close>

definition rejecting :: "client_message \<Rightarrow> string option" where
  "rejecting m = (if m = msgA then Some ''Converting circular structure to JSON'' else None)"

definition connected_rejecting :: client where
  "connected_rejecting =
     run [Call_connect, Socket_open 0] (offline\<lparr> sendFailure := rejecting \<rparr>)"

text \<open>Two messages were sent offline, \<^verbatim>\<open>connect\<close> was called, and the socket has just become
  open: the state in which the open listeners are about to run.\<close>

definition backlog_opening :: client where
  "backlog_opening =
     setReadyState 0 OPEN
       (run [Call_sendMessage msgA, Call_sendMessage msgB, Call_connect]
            (offline\<lparr> sendFailure := rejecting \<rparr>))"

text \<open>Connected, first ping sent, its timeout (timer 3) pending; and the same after that
  timeout has expired.\<close>

definition awaiting_pong :: client where
  "awaiting_pong = run [Call_connect, Socket_open 0, Timer_fires 2] offline"

definition pong_overdue :: client where
  "pong_overdue = run [Timer_fires 3] awaiting_pong"

subsection \<open>Reconnection scenarios\<close>

fun isReconnectTimer :: "timer \<Rightarrow> bool" where
  "isReconnectTimer (ReconnectTimer d) = True"
| "isReconnectTimer t = False"

text \<open>The events that no caller causes: socket events and timer expiries.\<close>

fun automatic :: "event \<Rightarrow> bool" where
  "automatic Call_connect = False"
| "automatic Call_disconnect = False"
| "automatic (Call_sendMessage m) = False"
| "automatic e = True"

text \<open>Nothing is left that could reconnect: the status is not \<^verbatim>\<open>connecting\<close>, every socket
  the client created is closed, and no reconnect timer is pending.\<close>

definition settled :: "client \<Rightarrow> bool" where
  "settled s \<longleftrightarrow>
     state (connectionStatus s) \<noteq> Connecting
     \<and> list_all (\<lambda>x. readyState x = CLOSED) (sockets s)
     \<and> list_all (\<lambda>p. \<not> isReconnectTimer (snd p)) (timers s)"

text \<open>\<^verbatim>\<open>connect\<close>, then four times: the socket closes before it opens and the reconnect
  timer of that closure expires; the last of the four closures is the last event.\<close>

definition four_closures :: "event list" where
  "four_closures =
     [Call_connect, Socket_close 0, Timer_fires 2, Socket_close 1, Timer_fires 4,
      Socket_close 2, Timer_fires 6, Socket_close 3]"

text \<open>\<^verbatim>\<open>connect\<close>; the connection timeout (timer 1) expires while the socket is still
  connecting; the close event of that socket arrives; the caller disconnects.\<close>

text \<open>After the four closures: the connection timeout of the first socket (timer 1)
  expires during the wait, then the reconnect timer of the fourth closure (timer 8) expires
  and the fifth socket is created.\<close>

definition fifth_attempt :: "event list" where
  "fifth_attempt = four_closures @ [Timer_fires 1, Timer_fires 8]"

definition timeout_then_disconnect :: "event list" where
  "timeout_then_disconnect = [Call_connect, Timer_fires 1, Socket_close 0, Call_disconnect]"

section \<open>Properties\<close>

subsection \<open>Basic facts\<close>

lemmas client_defs =
  initial_def setTimer_def clearTimer_def readyStateOf_def setReadyState_def closeSocket_def
  closeCurrent_def updateConnectionStatus_def emitError_def isConnected_def queueMessage_def
  sendMessage_def flushMessageQueue_def stopHeartbeat_def startHeartbeat_def heartbeatTick_def
  handlePong_def calculateBackoffDelay_def handleReconnect_def connect_def cleanup_def
  disconnect_def handleOpen_def handleMessage_def handleError_def handleClose_def
  connectionTimeout_def fire_def step_def Let_def

lemma overflowBound_large: "2 ^ 1023 \<le> overflowBound"
proof -
  have "(2::real) ^ 1024 = 2 * 2 ^ 1023" by simp
  moreover have "(2::real) ^ 970 \<le> 2 ^ 1023" by (rule power_increasing) simp_all
  ultimately show ?thesis by (simp add: overflowBound_def)
qed

lemma overflowBound_pos: "0 < overflowBound"
  using overflowBound_large by (smt (verit) zero_less_power)

lemma toNumber_small: "\<bar>x\<bar> < 2 ^ 1023 \<Longrightarrow> toNumber x = Num x"
  using overflowBound_large by (auto simp add: toNumber_def abs_if split: if_splits)

lemma toNumber_not_NaN [simp]: "toNumber x \<noteq> NaN"
  by (simp add: toNumber_def)

lemma toNumber_mono: "x \<le> y \<Longrightarrow> js_le (toNumber x) (toNumber y)"
  using overflowBound_pos by (auto simp add: toNumber_def)

lemmas number_defs = Math_pow_def Math_min_def toNumber_small

lemma run_Nil [simp]: "run [] s = s"
  by (simp add: run_def)

lemma run_Cons [simp]: "run (e # es) s = run es (step e s)"
  by (simp add: run_def)

lemma run_append: "run (es @ fs) s = run fs (run es s)"
  by (simp add: run_def)

lemma isConnected_cong:
  "ws s' = ws s \<Longrightarrow> sockets s' = sockets s \<Longrightarrow> isConnected s' = isConnected s"
  by (simp add: isConnected_def readyStateOf_def split: option.splits)

lemma isConnected_emitted [simp]: "isConnected (s\<lparr> emitted := es \<rparr>) = isConnected s"
  by (rule isConnected_cong) simp_all

lemma isConnected_messageQueue [simp]: "isConnected (s\<lparr> messageQueue := q \<rparr>) = isConnected s"
  by (rule isConnected_cong) simp_all

lemma offline_facts:
  "\<not> isConnected offline" "messageQueue_enabled (config offline)"
  "messageQueue_maxSize (config offline) = Num 2" "messageQueue offline = []"
  by (simp_all add: offline_def initial_def example_config_def isConnected_def)

lemma offline_unbuffered_facts:
  "\<not> isConnected offline_unbuffered" "messageQueue_enabled (config offline_unbuffered)"
  "messageQueue_maxSize (config offline_unbuffered) = Num 0"
  "messageQueue offline_unbuffered = []"
  by (simp_all add: offline_unbuffered_def initial_def example_config_def isConnected_def)

lemma offline_fractional_facts:
  "\<not> isConnected offline_fractional" "messageQueue_enabled (config offline_fractional)"
  "messageQueue_maxSize (config offline_fractional) = Num (3 / 2)"
  "messageQueue offline_fractional = []"
  by (simp_all add: offline_fractional_def initial_def example_config_def isConnected_def)

lemma connected_rejecting_facts:
  "isConnected connected_rejecting" "ws connected_rejecting = Some 0"
  "sendFailure connected_rejecting msgA = Some ''Converting circular structure to JSON''"
  "messageQueue connected_rejecting = []"
  by (simp_all add: connected_rejecting_def offline_def example_config_def rejecting_def
        client_defs)

lemma backlog_opening_facts:
  "isConnected backlog_opening" "ws backlog_opening = Some 0"
  "messageQueue backlog_opening = [msgA, msgB]" "sendFailure backlog_opening = rejecting"
  "emitted backlog_opening =
     [ConnectionChange \<lparr> state = Connecting, error = None, reconnectAttempt = None,
                         lastConnected = None \<rparr>,
      TimerStarted 1 (ConnectionTimeout (Num 10000))]"
  "now backlog_opening = 0" "sessionId backlog_opening = ''session''"
  "userAgent backlog_opening = []"
  "heartbeat_enabled (config backlog_opening)" "nextTimer backlog_opening = 2"
  "timers backlog_opening = [(1, ConnectionTimeout (Num 10000))]"
  "heartbeat_interval (config backlog_opening) = Num 30000"
  "heartbeatTimer backlog_opening = None" "heartbeatTimeoutTimer backlog_opening = None"
  by (simp_all add: backlog_opening_def offline_def example_config_def client_defs)

subsection \<open>The outbound queue\<close>

lemma messageQueue_queueMessage:
  "messageQueue (queueMessage m s) =
     (if js_le (messageQueue_maxSize (config s)) (Num (real (length (messageQueue s))))
      then drop 1 (messageQueue s) else messageQueue s) @ [m]"
  by (simp add: queueMessage_def)

lemma config_queueMessage [simp]: "config (queueMessage m s) = config s"
  by (simp add: queueMessage_def)

lemma isConnected_queueMessage [simp]: "isConnected (queueMessage m s) = isConnected s"
  by (rule isConnected_cong) (simp_all add: queueMessage_def)

lemma step_send_offline:
  "\<not> isConnected s \<Longrightarrow> messageQueue_enabled (config s) \<Longrightarrow>
   step (Call_sendMessage m) s = queueMessage m s"
  by (simp add: step_def sendMessage_def)

text \<open>Shifting the head of a full queue and pushing keeps the newest \<open>n\<close> entries.\<close>

lemma keep_newest:
  assumes "length q \<le> n" "1 \<le> n"
  shows "drop (length (q @ m # ms) - n) (q @ m # ms) =
         drop (length (((if n \<le> length q then drop 1 q else q) @ [m]) @ ms) - n)
              (((if n \<le> length q then drop 1 q else q) @ [m]) @ ms)"
proof (cases "n \<le> length q")
  case True
  with assms have len: "length q = n" by simp
  then obtain x q' where q: "q = x # q'" using assms(2) by (cases q) auto
  show ?thesis using len q by (simp add: Suc_diff_le)
next
  case False
  then show ?thesis by simp
qed

lemma offline_sends:
  assumes "\<not> isConnected s" "messageQueue_enabled (config s)"
    "messageQueue_maxSize (config s) = Num (real n)" "1 \<le> n"
    "length (messageQueue s) \<le> n"
  shows "messageQueue (run (map Call_sendMessage ms) s) =
           drop (length (messageQueue s @ ms) - n) (messageQueue s @ ms)"
  using assms
proof (induction ms arbitrary: s)
  case Nil
  then show ?case by simp
next
  case (Cons m ms)
  let ?s = "queueMessage m s"
  have st: "step (Call_sendMessage m) s = ?s"
    using Cons.prems by (simp add: step_send_offline)
  have q1: "messageQueue ?s =
              (if n \<le> length (messageQueue s) then drop 1 (messageQueue s)
               else messageQueue s) @ [m]"
    using Cons.prems by (simp add: messageQueue_queueMessage)
  have len: "length (messageQueue ?s) \<le> n"
    unfolding q1 using Cons.prems by auto
  have "messageQueue (run (map Call_sendMessage ms) ?s) =
        drop (length (messageQueue ?s @ ms) - n) (messageQueue ?s @ ms)"
    using Cons.prems len by (intro Cons.IH) simp_all
  also have "\<dots> = drop (length (messageQueue s @ m # ms) - n) (messageQueue s @ m # ms)"
    unfolding q1 using Cons.prems
    by (intro keep_newest [symmetric]) auto
  finally show ?case using st by simp
qed

text \<open>
  C3, as amended. For a client that is not connected, has queueing enabled and a
  configured \<^verbatim>\<open>messageQueue.maxSize\<close> that is an integer \<open>n\<close> of at least 1, and whose queue
  is within that size: after any sequence of \<^verbatim>\<open>sendMessage\<close> calls the queue is still
  within the size, it holds exactly the newest \<open>n\<close> of the old entries followed by the
  sent messages (the oldest ones are gone), and a send into a full queue drops the head and
  appends.
\<close>

theorem queue_bounded_drop_oldest:
  assumes "\<not> isConnected s" and "messageQueue_enabled (config s)"
    and "messageQueue_maxSize (config s) = Num (real n)" and "1 \<le> n"
    and "length (messageQueue s) \<le> n"
  shows "length (messageQueue (run (map Call_sendMessage ms) s)) \<le> n
         \<and> \<not> js_lt (messageQueue_maxSize (config s))
                     (Num (real (length (messageQueue (run (map Call_sendMessage ms) s)))))
         \<and> messageQueue (run (map Call_sendMessage ms) s) =
             drop (length (messageQueue s @ ms) - n) (messageQueue s @ ms)
         \<and> (length (messageQueue s) = n \<longrightarrow>
              messageQueue (step (Call_sendMessage m) s) = tl (messageQueue s) @ [m])"
proof -
  have closed: "messageQueue (run (map Call_sendMessage ms) s) =
                  drop (length (messageQueue s @ ms) - n) (messageQueue s @ ms)"
    using assms by (rule offline_sends)
  have bound: "length (messageQueue (run (map Call_sendMessage ms) s)) \<le> n"
    unfolding closed using assms(4) by simp
  then have within: "\<not> js_lt (messageQueue_maxSize (config s))
                     (Num (real (length (messageQueue (run (map Call_sendMessage ms) s)))))"
    by (simp add: assms(3))
  have full: "length (messageQueue s) = n \<longrightarrow>
              messageQueue (step (Call_sendMessage m) s) = tl (messageQueue s) @ [m]"
    using assms by (simp add: step_send_offline messageQueue_queueMessage drop_Suc)
  from bound within closed full show ?thesis by blast
qed

text \<open>The scenario of the specification: size 2, messages A, B, C sent offline; B and C
  remain.\<close>

theorem queue_bounded_drop_oldest_witness:
  "\<not> isConnected offline \<and> messageQueue_enabled (config offline)
   \<and> messageQueue_maxSize (config offline) = Num (real 2) \<and> (1::nat) \<le> 2
   \<and> length (messageQueue offline) \<le> 2
   \<and> messageQueue (run (map Call_sendMessage [msgA, msgB, msgC]) offline) = [msgB, msgC]
   \<and> messageQueue (step (Call_sendMessage msgC)
                      (run (map Call_sendMessage [msgA, msgB]) offline)) = [msgB, msgC]"
proof -
  let ?full = "run (map Call_sendMessage [msgA, msgB]) offline"
  have full: "\<not> isConnected ?full" "messageQueue_enabled (config ?full)"
    "messageQueue_maxSize (config ?full) = Num (real 2)" "messageQueue ?full = [msgA, msgB]"
    by (simp_all add: step_send_offline offline_facts messageQueue_queueMessage)
  show ?thesis
    using queue_bounded_drop_oldest [of offline 2 "[msgA, msgB, msgC]" msgA]
      queue_bounded_drop_oldest [of ?full 2 "[]" msgC] full
    by (simp add: offline_facts)
qed

text \<open>With a configured size of 0 a single offline send leaves one entry in the queue;
  with a configured size of 1.5 two offline sends leave two.\<close>

theorem queue_exceeds_capacity:
  "js_lt (messageQueue_maxSize (config offline_unbuffered))
         (Num (real (length (messageQueue (run [Call_sendMessage msgA] offline_unbuffered)))))
   \<and> js_le (Num 1) (messageQueue_maxSize (config offline_fractional))
   \<and> js_lt (messageQueue_maxSize (config offline_fractional))
         (Num (real (length (messageQueue
            (run [Call_sendMessage msgA, Call_sendMessage msgB] offline_fractional)))))"
  by (simp add: step_send_offline offline_unbuffered_facts offline_fractional_facts
        messageQueue_queueMessage)

text \<open>
  C10. With \<^verbatim>\<open>messageQueue.maxSize\<close> 0 and queueing enabled, a disconnected client whose
  queue holds at most one entry holds, after any positive number of \<^verbatim>\<open>sendMessage\<close> calls,
  exactly the message sent last: the head is shifted before the push, and the push is
  never refused.
\<close>

theorem zero_capacity_keeps_latest:
  assumes "\<not> isConnected s" and "messageQueue_enabled (config s)"
    and "messageQueue_maxSize (config s) = Num 0" and "length (messageQueue s) \<le> 1"
    and "ms \<noteq> []"
  shows "messageQueue (run (map Call_sendMessage ms) s) = [last ms]"
  using assms
proof (induction ms arbitrary: s)
  case Nil
  then show ?case by simp
next
  case (Cons m ms)
  let ?s = "queueMessage m s"
  have st: "step (Call_sendMessage m) s = ?s"
    using Cons.prems by (simp add: step_send_offline)
  have q: "messageQueue ?s = [m]"
    using Cons.prems by (simp add: messageQueue_queueMessage)
  show ?case
  proof (cases ms)
    case Nil
    then show ?thesis using st q by simp
  next
    case (Cons m' ms')
    then have "messageQueue (run (map Call_sendMessage ms) ?s) = [last ms]"
      using Cons.IH [of ?s] Cons.prems q by simp
    then show ?thesis using st Cons by simp
  qed
qed

theorem zero_capacity_keeps_latest_witness:
  "\<not> isConnected offline_unbuffered \<and> messageQueue_enabled (config offline_unbuffered)
   \<and> messageQueue_maxSize (config offline_unbuffered) = Num 0
   \<and> length (messageQueue offline_unbuffered) \<le> 1 \<and> [msgA, msgB] \<noteq> []
   \<and> messageQueue (run (map Call_sendMessage [msgA, msgB]) offline_unbuffered) = [msgB]"
  using zero_capacity_keeps_latest [of offline_unbuffered "[msgA, msgB]"]
  by (simp add: offline_unbuffered_facts)

subsection \<open>Sending\<close>

lemma transmissions_append:
  "transmissions k (es @ fs) = transmissions k es @ transmissions k fs"
  by (induction k es rule: transmissions.induct) simp_all

lemma transmissions_attempts:
  "transmissions k (map (attempt failure k) ms) = filter (\<lambda>m. failure m = None) ms"
  by (induction ms) (auto simp add: attempt_def split: option.splits)

text \<open>The three ways \<^verbatim>\<open>sendMessage\<close> does not transmit: it queues and returns \<^verbatim>\<open>false\<close>, it
  throws when queueing is disabled, and it returns \<^verbatim>\<open>false\<close> after an error event when the
  transmission over the open transport throws.\<close>

lemma sendMessage_not_sent:
  "(\<not> isConnected s \<and> messageQueue_enabled (config s) \<longrightarrow>
      sendMessage m s = (Returned False, queueMessage m s))
   \<and> (\<not> isConnected s \<and> \<not> messageQueue_enabled (config s) \<longrightarrow>
      sendMessage m s = (Thrown ''WebSocket not connected and message queue disabled'', s))
   \<and> (isConnected s \<and> sendFailure s m = Some e \<longrightarrow>
      sendMessage m s = (Returned False, emitError e s))"
  by (simp add: sendMessage_def)

text \<open>
  C2, at a failing input. The transport is open and the transmission of message A throws:
  \<^verbatim>\<open>sendMessage\<close> returns \<^verbatim>\<open>false\<close>, the value it returns when it queues (as it does for
  the same message on the disconnected client), although the message has neither reached
  the socket nor entered the queue.
\<close>

theorem failed_send_reports_queued:
  "isConnected connected_rejecting
   \<and> fst (sendMessage msgA connected_rejecting) = Returned False
   \<and> messageQueue (snd (sendMessage msgA connected_rejecting)) = []
   \<and> transmissions 0 (emitted (snd (sendMessage msgA connected_rejecting))) =
       transmissions 0 (emitted connected_rejecting)
   \<and> \<not> isConnected offline
   \<and> fst (sendMessage msgA offline) = Returned False
   \<and> messageQueue (snd (sendMessage msgA offline)) = [msgA]"
  by (simp add: offline_facts connected_rejecting_facts sendMessage_def emitError_def
        transmissions_append messageQueue_queueMessage)

subsection \<open>Backoff delay\<close>

lemma Math_min_commute: "Math_min a b = Math_min b a"
  by (cases a; cases b) (auto simp add: Math_min_def)

lemma Math_min_cap: "\<not> js_lt c (Math_min d c)"
  by (cases d; cases c) (auto simp add: Math_min_def)

lemma Math_min_mono:
  "c \<noteq> NaN \<Longrightarrow> js_le x y \<Longrightarrow> js_le (Math_min x c) (Math_min y c)"
  by (cases x; cases y; cases c) (auto simp add: Math_min_def)

lemma Math_min_NaN: "Math_min a b \<noteq> NaN \<Longrightarrow> a \<noteq> NaN \<and> b \<noteq> NaN"
  by (auto simp add: Math_min_def)

lemma js_le_one_cases:
  assumes "js_le (Num 1) b"
  obtains x where "b = Num x" "1 \<le> x" | "b = Infinity"
  using assms by (cases b) auto

lemma Math_pow_nat:
  assumes "js_le (Num 1) b"
  shows "Math_pow b (int j) =
           (if j = 0 then Num 1
            else case b of Num x \<Rightarrow> toNumber (x ^ j) | _ \<Rightarrow> Infinity)"
  using assms by (rule js_le_one_cases) (auto simp add: Math_pow_def)

text \<open>For a base of at least 1 the power is at least 1 and grows with the exponent.\<close>

lemma Math_pow_mono:
  assumes "js_le (Num 1) b" "j \<le> m"
  shows "js_le (Math_pow b (int j)) (Math_pow b (int m))"
    and "js_le (Num 1) (Math_pow b (int j))"
proof -
  have one: "toNumber 1 = Num 1" by (simp add: toNumber_small)
  from assms(1) show "js_le (Num 1) (Math_pow b (int j))"
  proof (rule js_le_one_cases)
    fix x assume b: "b = Num x" "1 \<le> x"
    then have "1 \<le> x ^ j" by simp
    then have "js_le (toNumber 1) (toNumber (x ^ j))" by (rule toNumber_mono)
    then show ?thesis using b assms(1) by (simp add: Math_pow_nat one)
  next
    assume "b = Infinity"
    then show ?thesis by (simp add: Math_pow_def)
  qed
  from assms(1) show "js_le (Math_pow b (int j)) (Math_pow b (int m))"
  proof (rule js_le_one_cases)
    fix x assume b: "b = Num x" "1 \<le> x"
    then have "x ^ j \<le> x ^ m" using assms(2) by (intro power_increasing)
    then have le: "js_le (toNumber (x ^ j)) (toNumber (x ^ m))" by (rule toNumber_mono)
    have "1 \<le> x ^ m" using b by simp
    then have "js_le (toNumber 1) (toNumber (x ^ m))" by (rule toNumber_mono)
    then show ?thesis using b assms le by (auto simp add: Math_pow_nat one)
  next
    assume "b = Infinity"
    then show ?thesis using assms(2) by (auto simp add: Math_pow_def)
  qed
qed

text \<open>A factor that is not negative keeps the order of multiplicands that are at least 1,
  as long as the larger product is not NaN.\<close>

lemma js_mul_mono:
  assumes "js_le (Num 0) a" "js_le (Num 1) x" "js_le x y" "js_mul a y \<noteq> NaN"
  shows "js_le (js_mul a x) (js_mul a y)"
proof -
  have m: "r * u \<le> r * v" if "0 \<le> r" "u \<le> v" for r u v :: real
    using that by (rule mult_left_mono [rotated])
  have t: "js_le (toNumber p) Infinity" for p
    by (simp add: toNumber_def)
  show ?thesis
    using assms by (cases a; cases x; cases y) (auto simp add: m toNumber_mono t split: if_splits)
qed

lemma calculateBackoffDelay_Suc:
  "calculateBackoffDelay (s\<lparr> reconnectAttempts := Suc j \<rparr>) =
     Math_min (js_mul (reconnect_initialDelay (config s))
                 (Math_pow (reconnect_backoffMultiplier (config s)) (int j)))
              (reconnect_maxDelay (config s))"
  by (simp add: calculateBackoffDelay_def)

lemma calculateBackoffDelay_formula:
  "calculateBackoffDelay (s\<lparr> reconnectAttempts := Suc j \<rparr>) = specified_delay (config s) (Suc j)"
  by (simp add: calculateBackoffDelay_Suc specified_delay_def Math_min_commute)

lemma calculateBackoffDelay_mono:
  assumes "js_le (Num 1) (reconnect_backoffMultiplier (config s))"
    and "js_le (Num 0) (reconnect_initialDelay (config s))"
    and "calculateBackoffDelay (s\<lparr> reconnectAttempts := Suc m \<rparr>) \<noteq> NaN"
    and "j \<le> m"
  shows "js_le (calculateBackoffDelay (s\<lparr> reconnectAttempts := Suc j \<rparr>))
               (calculateBackoffDelay (s\<lparr> reconnectAttempts := Suc m \<rparr>))"
proof -
  let ?a = "reconnect_initialDelay (config s)" and ?b = "reconnect_backoffMultiplier (config s)"
  let ?c = "reconnect_maxDelay (config s)"
  from assms(3) have nn: "js_mul ?a (Math_pow ?b (int m)) \<noteq> NaN" "?c \<noteq> NaN"
    unfolding calculateBackoffDelay_Suc by (auto dest: Math_min_NaN)
  note p = Math_pow_mono [OF assms(1,4)]
  have "js_le (js_mul ?a (Math_pow ?b (int j))) (js_mul ?a (Math_pow ?b (int m)))"
    using assms(2) p(2) p(1) nn(1) by (rule js_mul_mono)
  then show ?thesis
    unfolding calculateBackoffDelay_Suc using nn(2) by (intro Math_min_mono)
qed

lemma handleReconnect_arming:
  assumes "reconnect_enabled (config s)" "\<not> isIntentionalClose s"
    "\<not> js_le (reconnect_maxAttempts (config s)) (Num (real (reconnectAttempts s)))"
  shows "handleReconnect s =
           updateConnectionStatus Reconnecting None (Some (Suc (reconnectAttempts s)))
             ((setTimer (ReconnectTimer (specified_delay (config s) (Suc (reconnectAttempts s))))
                (s\<lparr> reconnectAttempts := Suc (reconnectAttempts s) \<rparr>))
              \<lparr> reconnectTimer := Some (nextTimer s) \<rparr>)"
  using assms calculateBackoffDelay_formula [where s = s and j = "reconnectAttempts s"]
  by (simp add: handleReconnect_def Let_def setTimer_def)

text \<open>
  C4, as amended. For every configuration, with the counter at attempt number
  \<open>n \<ge> 1\<close> the computed delay equals
  \<^verbatim>\<open>min(maxDelay, initialDelay * backoffMultiplier^(n - 1))\<close> in the arithmetic of JavaScript
  numbers, it is never greater than \<^verbatim>\<open>maxDelay\<close>, and the reconnect timer that
  \<^verbatim>\<open>handleReconnect\<close> arms carries it for the incremented counter. For every configuration with \<^verbatim>\<open>backoffMultiplier\<close> at
  least 1 and \<^verbatim>\<open>initialDelay\<close> not negative, the delay is non-decreasing in the attempt number
  up to every attempt whose delay is not NaN (NaN comes from a NaN \<^verbatim>\<open>maxDelay\<close>, or from an
  \<^verbatim>\<open>initialDelay\<close> of 0 times a power that has overflowed to infinity).
\<close>

theorem backoff_delay:
  "calculateBackoffDelay (s\<lparr> reconnectAttempts := Suc j \<rparr>) = specified_delay (config s) (Suc j)
   \<and> \<not> js_lt (reconnect_maxDelay (config s)) (calculateBackoffDelay (s\<lparr> reconnectAttempts := a \<rparr>))
   \<and> (js_le (Num 1) (reconnect_backoffMultiplier (config s))
        \<and> js_le (Num 0) (reconnect_initialDelay (config s))
        \<and> calculateBackoffDelay (s\<lparr> reconnectAttempts := Suc m \<rparr>) \<noteq> NaN \<and> j \<le> m \<longrightarrow>
      js_le (calculateBackoffDelay (s\<lparr> reconnectAttempts := Suc j \<rparr>))
            (calculateBackoffDelay (s\<lparr> reconnectAttempts := Suc m \<rparr>)))
   \<and> (reconnect_enabled (config s) \<and> \<not> isIntentionalClose s
        \<and> \<not> js_le (reconnect_maxAttempts (config s)) (Num (real (reconnectAttempts s))) \<longrightarrow>
      timers (handleReconnect s) =
        timers s @ [(nextTimer s,
          ReconnectTimer (specified_delay (config s) (Suc (reconnectAttempts s))))])"
proof -
  have cap: "\<not> js_lt (reconnect_maxDelay (config s))
                 (calculateBackoffDelay (s\<lparr> reconnectAttempts := a \<rparr>))"
    by (simp add: calculateBackoffDelay_def Math_min_cap)
  have arm: "reconnect_enabled (config s) \<and> \<not> isIntentionalClose s
        \<and> \<not> js_le (reconnect_maxAttempts (config s)) (Num (real (reconnectAttempts s))) \<longrightarrow>
      timers (handleReconnect s) =
        timers s @ [(nextTimer s,
          ReconnectTimer (specified_delay (config s) (Suc (reconnectAttempts s))))]"
    by (auto simp add: handleReconnect_arming updateConnectionStatus_def setTimer_def Let_def)
  from cap arm show ?thesis
    using calculateBackoffDelay_formula [where s = s and j = j]
      calculateBackoffDelay_mono [where s = s and m = m and j = j]
    by blast
qed

text \<open>The scenario of the specification: delays 1000, 2000, 4000 and 5000 for the attempts
  1 to 4.\<close>

theorem backoff_delay_witness:
  "reconnect_initialDelay (config offline) = Num 1000
   \<and> reconnect_backoffMultiplier (config offline) = Num 2
   \<and> reconnect_maxDelay (config offline) = Num 5000
   \<and> js_le (Num 1) (reconnect_backoffMultiplier (config offline))
   \<and> js_le (Num 0) (reconnect_initialDelay (config offline))
   \<and> reconnect_enabled (config offline) \<and> \<not> isIntentionalClose offline
   \<and> \<not> js_le (reconnect_maxAttempts (config offline)) (Num (real (reconnectAttempts offline)))
   \<and> calculateBackoffDelay (offline\<lparr> reconnectAttempts := 1 \<rparr>) = Num 1000
   \<and> calculateBackoffDelay (offline\<lparr> reconnectAttempts := 2 \<rparr>) = Num 2000
   \<and> calculateBackoffDelay (offline\<lparr> reconnectAttempts := 3 \<rparr>) = Num 4000
   \<and> calculateBackoffDelay (offline\<lparr> reconnectAttempts := 4 \<rparr>) = Num 5000
   \<and> js_le (calculateBackoffDelay (offline\<lparr> reconnectAttempts := 3 \<rparr>))
            (calculateBackoffDelay (offline\<lparr> reconnectAttempts := 4 \<rparr>))
   \<and> timers (handleReconnect offline) = [(1, ReconnectTimer (Num 1000))]"
proof -
  have cfg: "reconnect_backoffMultiplier (config offline) = Num 2"
    "reconnect_initialDelay (config offline) = Num 1000"
    "reconnect_maxDelay (config offline) = Num 5000"
    "reconnect_enabled (config offline)" "\<not> isIntentionalClose offline"
    "reconnectAttempts offline = 0" "reconnect_maxAttempts (config offline) = Num 4"
    "timers offline = []" "nextTimer offline = 1"
    by (simp_all add: offline_def initial_def example_config_def)
  note T = backoff_delay [where s = offline and a = 0 and m = 3]
  have f: "specified_delay (config offline) (Suc 0) = Num 1000"
    "specified_delay (config offline) (Suc 1) = Num 2000"
    "specified_delay (config offline) (Suc 2) = Num 4000"
    "specified_delay (config offline) (Suc 3) = Num 5000"
    by (simp_all add: specified_delay_def cfg number_defs)
  have d: "calculateBackoffDelay (offline\<lparr> reconnectAttempts := 1 \<rparr>) = Num 1000"
    "calculateBackoffDelay (offline\<lparr> reconnectAttempts := 2 \<rparr>) = Num 2000"
    "calculateBackoffDelay (offline\<lparr> reconnectAttempts := 3 \<rparr>) = Num 4000"
    "calculateBackoffDelay (offline\<lparr> reconnectAttempts := 4 \<rparr>) = Num 5000"
    using T [where j = 0] T [where j = 1] T [where j = 2] T [where j = 3] f
    by (simp_all add: eval_nat_numeral)
  note f(1)
  moreover have "timers (handleReconnect offline) =
      timers offline @ [(nextTimer offline,
          ReconnectTimer (specified_delay (config offline) (Suc (reconnectAttempts offline))))]"
    using T [where j = 0] cfg by simp
  ultimately have t: "timers (handleReconnect offline) = [(1, ReconnectTimer (Num 1000))]"
    by (simp add: cfg)
  show ?thesis
    using d t by (simp add: cfg)
qed

text \<open>With a factor of 2 and an initial delay of \<open>- 1000\<close> the second delay is below the
  first. With an initial delay of 0 and a factor of \<open>10^200\<close> the third delay is NaN, which
  the first delay is not below or equal to.\<close>

theorem delay_decreases_or_NaN:
  "js_le (Num 1) (reconnect_backoffMultiplier (config negative_delay))
   \<and> js_lt (calculateBackoffDelay (negative_delay\<lparr> reconnectAttempts := 2 \<rparr>))
           (calculateBackoffDelay (negative_delay\<lparr> reconnectAttempts := 1 \<rparr>))
   \<and> js_le (Num 1) (reconnect_backoffMultiplier (config overflowing))
   \<and> js_le (Num 0) (reconnect_initialDelay (config overflowing))
   \<and> calculateBackoffDelay (overflowing\<lparr> reconnectAttempts := 1 \<rparr>) = Num 0
   \<and> calculateBackoffDelay (overflowing\<lparr> reconnectAttempts := 3 \<rparr>) = NaN
   \<and> \<not> js_le (calculateBackoffDelay (overflowing\<lparr> reconnectAttempts := 1 \<rparr>))
              (calculateBackoffDelay (overflowing\<lparr> reconnectAttempts := 3 \<rparr>))"
proof -
  have big: "toNumber ((10 ^ 200) ^ 2) = Infinity"
    by (simp add: toNumber_def overflowBound_def)
  have neg: "js_le (Num 1) (reconnect_backoffMultiplier (config negative_delay))"
    "js_lt (calculateBackoffDelay (negative_delay\<lparr> reconnectAttempts := 2 \<rparr>))
           (calculateBackoffDelay (negative_delay\<lparr> reconnectAttempts := 1 \<rparr>))"
    by (simp_all add: negative_delay_def initial_def example_config_def
          calculateBackoffDelay_def number_defs)
  have ovf: "js_le (Num 1) (reconnect_backoffMultiplier (config overflowing))"
    "js_le (Num 0) (reconnect_initialDelay (config overflowing))"
    "calculateBackoffDelay (overflowing\<lparr> reconnectAttempts := 1 \<rparr>) = Num 0"
    "calculateBackoffDelay (overflowing\<lparr> reconnectAttempts := 3 \<rparr>) = NaN"
    using big
    by (simp_all add: overflowing_def initial_def example_config_def
          calculateBackoffDelay_def Math_pow_def Math_min_def toNumber_small)
  from neg ovf show ?thesis by simp
qed

subsection \<open>Flushing the queue\<close>

lemma sendMessage_connected:
  assumes "isConnected s" "ws s = Some k"
  shows "sendMessage m s =
           (Returned (sendFailure s m = None),
            s\<lparr> emitted := emitted s @ [attempt (sendFailure s) k m] \<rparr>)"
  using assms by (simp add: sendMessage_def attempt_def emitError_def split: option.splits)

lemma sendEach_connected:
  assumes "isConnected s" "ws s = Some k"
  shows "sendEach ms s =
           (Returned (), s\<lparr> emitted := emitted s @ map (attempt (sendFailure s) k) ms \<rparr>)"
  using assms
proof (induction ms arbitrary: s)
  case Nil
  then show ?case by simp
next
  case (Cons m ms)
  let ?s = "s\<lparr> emitted := emitted s @ [attempt (sendFailure s) k m] \<rparr>"
  have "sendEach ms ?s =
          (Returned (), ?s\<lparr> emitted := emitted ?s @ map (attempt (sendFailure ?s) k) ms \<rparr>)"
    using Cons.prems by (intro Cons.IH) simp_all
  then show ?case
    using Cons.prems by (simp add: sendMessage_connected)
qed

lemma flushMessageQueue_connected:
  assumes "isConnected s" "ws s = Some k"
  shows "flushMessageQueue s =
           (Returned (),
            s\<lparr> messageQueue := [],
               emitted := emitted s @ map (attempt (sendFailure s) k) (messageQueue s) \<rparr>)"
proof (cases "messageQueue s = []")
  case True
  then have "s\<lparr> messageQueue := [],
                emitted := emitted s @ map (attempt (sendFailure s) k) (messageQueue s) \<rparr> = s"
    by simp
  with True show ?thesis by (simp add: flushMessageQueue_def)
next
  case False
  have "sendEach (messageQueue s) (s\<lparr> messageQueue := [] \<rparr>) =
          (Returned (), (s\<lparr> messageQueue := [] \<rparr>)
             \<lparr> emitted := emitted (s\<lparr> messageQueue := [] \<rparr>) @
                  map (attempt (sendFailure (s\<lparr> messageQueue := [] \<rparr>)) k) (messageQueue s) \<rparr>)"
    using assms by (intro sendEach_connected) simp_all
  with False show ?thesis by (simp add: flushMessageQueue_def)
qed

text \<open>
  C8. When the transport is open, \<^verbatim>\<open>flushMessageQueue\<close> returns normally, makes one
  \<^verbatim>\<open>sendMessage\<close> attempt for every queued message in queue order (a frame on the wire, or
  an error event where the transmission throws, after which the drain goes on), and leaves
  the queue empty; the frames that reach the socket are the queued messages that did not
  fail, in the order they were queued.
\<close>

theorem flush_drains_in_order:
  assumes "isConnected s" and "ws s = Some k"
  shows "flushMessageQueue s =
           (Returned (),
            s\<lparr> messageQueue := [],
               emitted := emitted s @ map (attempt (sendFailure s) k) (messageQueue s) \<rparr>)
       \<and> messageQueue (snd (flushMessageQueue s)) = []
       \<and> transmissions k (emitted (snd (flushMessageQueue s))) =
           transmissions k (emitted s) @ filter (\<lambda>m. sendFailure s m = None) (messageQueue s)"
  using flushMessageQueue_connected [OF assms]
  by (simp add: transmissions_append transmissions_attempts)

text \<open>A backlog of A and B where the transmission of A throws: the error is dispatched, B
  is transmitted after it, and the queue is empty.\<close>

theorem flush_drains_in_order_witness:
  "isConnected backlog_opening \<and> ws backlog_opening = Some 0
   \<and> messageQueue backlog_opening = [msgA, msgB]
   \<and> fst (flushMessageQueue backlog_opening) = Returned ()
   \<and> messageQueue (snd (flushMessageQueue backlog_opening)) = []
   \<and> emitted (snd (flushMessageQueue backlog_opening)) =
       [ConnectionChange \<lparr> state = Connecting, error = None, reconnectAttempt = None,
                           lastConnected = None \<rparr>,
        TimerStarted 1 (ConnectionTimeout (Num 10000)),
        ErrorEvent ''Converting circular structure to JSON'',
        Transmitted 0 msgB]"
  using flush_drains_in_order [of backlog_opening 0]
  by (simp add: backlog_opening_facts attempt_def rejecting_def)

subsection \<open>Transport open\<close>

lemma stopHeartbeat_keeps [simp]:
  "ws (stopHeartbeat s) = ws s" "sockets (stopHeartbeat s) = sockets s"
  "emitted (stopHeartbeat s) = emitted s" "messageQueue (stopHeartbeat s) = messageQueue s"
  "sendFailure (stopHeartbeat s) = sendFailure s" "config (stopHeartbeat s) = config s"
  "nextTimer (stopHeartbeat s) = nextTimer s"
  "reconnectAttempts (stopHeartbeat s) = reconnectAttempts s"
  "connectionStatus (stopHeartbeat s) = connectionStatus s"
  "isIntentionalClose (stopHeartbeat s) = isIntentionalClose s"
  "reconnectTimer (stopHeartbeat s) = reconnectTimer s"
  "heartbeatTimer (stopHeartbeat s) = None" "heartbeatTimeoutTimer (stopHeartbeat s) = None"
  "now (stopHeartbeat s) = now s" "openFailure (stopHeartbeat s) = openFailure s"
  "apiKey (stopHeartbeat s) = apiKey s"
  by (simp_all add: stopHeartbeat_def clearTimer_def Let_def split: option.splits)

lemma timers_stopHeartbeat:
  "timers (stopHeartbeat s) =
     filter (\<lambda>p. Some (fst p) \<noteq> heartbeatTimer s \<and> Some (fst p) \<noteq> heartbeatTimeoutTimer s)
            (timers s)"
  by (auto simp add: stopHeartbeat_def clearTimer_def Let_def split: option.splits
           intro: filter_cong)

lemma startHeartbeat_keeps [simp]:
  "ws (startHeartbeat s) = ws s" "sockets (startHeartbeat s) = sockets s"
  "emitted (startHeartbeat s) =
     emitted s @ [TimerStarted (nextTimer s) (HeartbeatInterval (heartbeat_interval (config s)))]"
  "messageQueue (startHeartbeat s) = messageQueue s"
  "sendFailure (startHeartbeat s) = sendFailure s" "config (startHeartbeat s) = config s"
  "reconnectAttempts (startHeartbeat s) = reconnectAttempts s"
  "connectionStatus (startHeartbeat s) = connectionStatus s"
  "heartbeatTimer (startHeartbeat s) = Some (nextTimer s)"
  "timers (startHeartbeat s) =
     timers (stopHeartbeat s) @ [(nextTimer s, HeartbeatInterval (heartbeat_interval (config s)))]"
  by (simp_all add: startHeartbeat_def setTimer_def Let_def)

lemma handleOpen_connected:
  assumes "isConnected s" "ws s = Some k"
  shows "handleOpen s =
     (let cs = \<lparr> state = Connected, error = None, reconnectAttempt = None,
                 lastConnected = Some (now s) \<rparr>;
          s2 = s\<lparr> reconnectAttempts := 0, connectionStatus := cs,
                  emitted := emitted s @ [ConnectionChange cs,
                    attempt (sendFailure s) k (Init (sessionId s) (userAgent s) (now s))] \<rparr>;
          s3 = (if heartbeat_enabled (config s) then startHeartbeat s2 else s2)
      in (Returned (),
          s3\<lparr> messageQueue := [],
              emitted := emitted s3 @ map (attempt (sendFailure s) k) (messageQueue s) \<rparr>))"
proof -
  define cs where "cs = \<lparr> state = Connected, error = None, reconnectAttempt = None,
                 lastConnected = Some (now s) \<rparr>"
  define s1 where
    "s1 = updateConnectionStatus Connected None None (s\<lparr> reconnectAttempts := 0 \<rparr>)"
  define s2 where "s2 = s\<lparr> reconnectAttempts := 0, connectionStatus := cs,
                  emitted := emitted s @ [ConnectionChange cs,
                    attempt (sendFailure s) k (Init (sessionId s) (userAgent s) (now s))] \<rparr>"
  define s3 where "s3 = (if heartbeat_enabled (config s) then startHeartbeat s2 else s2)"
  have s1: "s1 = s\<lparr> reconnectAttempts := 0, connectionStatus := cs,
                    emitted := emitted s @ [ConnectionChange cs] \<rparr>"
    by (simp add: s1_def cs_def updateConnectionStatus_def Let_def)
  have "isConnected s1 = isConnected s"
    by (rule isConnected_cong) (simp_all add: s1)
  then have c1: "isConnected s1" "ws s1 = Some k"
    using assms by (simp_all add: s1)
  have send: "sendMessage (Init (sessionId s1) (userAgent s1) (now s1)) s1 =
                (Returned (sendFailure s (Init (sessionId s) (userAgent s) (now s)) = None), s2)"
    by (simp add: sendMessage_connected [OF c1]) (simp add: s1 s2_def)
  have "isConnected s3 = isConnected s"
    by (rule isConnected_cong) (simp_all add: s3_def s2_def)
  then have c3: "isConnected s3" "ws s3 = Some k"
    using assms by (simp_all add: s3_def s2_def)
  have q3: "messageQueue s3 = messageQueue s" "sendFailure s3 = sendFailure s"
    "heartbeat_enabled (config s2) = heartbeat_enabled (config s)"
    by (simp_all add: s3_def s2_def)
  have "handleOpen s = flushMessageQueue s3"
    using send by (simp add: handleOpen_def s1_def [symmetric] s3_def q3)
  also have "\<dots> = (Returned (),
          s3\<lparr> messageQueue := [],
              emitted := emitted s3 @ map (attempt (sendFailure s) k) (messageQueue s) \<rparr>)"
    using flushMessageQueue_connected [OF c3] by (simp add: q3)
  finally show ?thesis
    by (simp add: Let_def cs_def s2_def s3_def)
qed

text \<open>
  C1, as amended. When the socket held in \<^verbatim>\<open>this.ws\<close> has opened, \<^verbatim>\<open>handleOpen\<close> resets
  the reconnect counter and dispatches the status change to \<^verbatim>\<open>connected\<close> first; only
  after that it sends the \<^verbatim>\<open>init\<close> message (session id and metadata), then starts the
  heartbeat interval (when enabled), then flushes the queue in order. What leaves the
  client during the handler is, in this order: the \<^verbatim>\<open>connected\<close> dispatch, the attempt to
  send \<^verbatim>\<open>init\<close>, the start of the heartbeat timer, and one send attempt for each queued
  message.
\<close>

theorem open_announces_then_sends:
  assumes "isConnected s" and "ws s = Some k"
  shows "fst (handleOpen s) = Returned ()
       \<and> emitted (snd (handleOpen s)) =
           emitted s @
             [ConnectionChange \<lparr> state = Connected, error = None, reconnectAttempt = None,
                                 lastConnected = Some (now s) \<rparr>,
              attempt (sendFailure s) k (Init (sessionId s) (userAgent s) (now s))]
             @ (if heartbeat_enabled (config s)
                then [TimerStarted (nextTimer s)
                        (HeartbeatInterval (heartbeat_interval (config s)))]
                else [])
             @ map (attempt (sendFailure s) k) (messageQueue s)
       \<and> messageQueue (snd (handleOpen s)) = []
       \<and> reconnectAttempts (snd (handleOpen s)) = 0
       \<and> connectionStatus (snd (handleOpen s)) =
           \<lparr> state = Connected, error = None, reconnectAttempt = None,
             lastConnected = Some (now s) \<rparr>
       \<and> (heartbeat_enabled (config s) \<longrightarrow>
            heartbeatTimer (snd (handleOpen s)) = Some (nextTimer s)
            \<and> timers (snd (handleOpen s)) =
                timers (stopHeartbeat s) @
                  [(nextTimer s, HeartbeatInterval (heartbeat_interval (config s)))])"
  by (simp add: handleOpen_connected [OF assms] Let_def timers_stopHeartbeat)

theorem open_announces_then_sends_witness:
  "isConnected backlog_opening \<and> ws backlog_opening = Some 0
   \<and> heartbeat_enabled (config backlog_opening)
   \<and> emitted (snd (handleOpen backlog_opening)) =
       [ConnectionChange \<lparr> state = Connecting, error = None, reconnectAttempt = None,
                           lastConnected = None \<rparr>,
        TimerStarted 1 (ConnectionTimeout (Num 10000)),
        ConnectionChange \<lparr> state = Connected, error = None, reconnectAttempt = None,
                           lastConnected = Some 0 \<rparr>,
        Transmitted 0 (Init ''session'' [] 0),
        TimerStarted 2 (HeartbeatInterval (Num 30000)),
        ErrorEvent ''Converting circular structure to JSON'',
        Transmitted 0 msgB]
   \<and> timers (snd (handleOpen backlog_opening)) =
       [(1, ConnectionTimeout (Num 10000)), (2, HeartbeatInterval (Num 30000))]"
  using open_announces_then_sends [of backlog_opening 0]
  by (simp add: backlog_opening_facts attempt_def rejecting_def timers_stopHeartbeat)

text \<open>One message queued offline, then \<^verbatim>\<open>connect\<close> and the open event of the socket: the
  \<^verbatim>\<open>connected\<close> status is dispatched before the \<^verbatim>\<open>init\<close> message is transmitted, the
  heartbeat timer is started and the queued message is transmitted.\<close>

theorem connected_announced_first:
  "emitted (run [Call_sendMessage msgB, Call_connect, Socket_open 0] offline) =
     [ConnectionChange \<lparr> state = Connecting, error = None, reconnectAttempt = None,
                         lastConnected = None \<rparr>,
      TimerStarted 1 (ConnectionTimeout (Num 10000)),
      ConnectionChange \<lparr> state = Connected, error = None, reconnectAttempt = None,
                         lastConnected = Some 0 \<rparr>,
      Transmitted 0 (Init ''session'' [] 0),
      TimerStarted 2 (HeartbeatInterval (Num 30000)),
      Transmitted 0 msgB]"
  by (simp add: offline_def example_config_def client_defs)

subsection \<open>Pong\<close>

lemma awaiting_pong_facts:
  "heartbeatTimeoutTimer awaiting_pong = Some 3"
  "timers awaiting_pong = [(2, HeartbeatInterval (Num 30000)), (3, HeartbeatTimeout (Num 5000))]"
  by (simp_all add: awaiting_pong_def offline_def example_config_def client_defs)

lemma pong_overdue_facts:
  "heartbeatTimeoutTimer pong_overdue = Some 3"
  "timers pong_overdue = [(2, HeartbeatInterval (Num 30000))]"
  by (simp_all add: pong_overdue_def awaiting_pong_def offline_def example_config_def
        client_defs)

text \<open>
  C7. An inbound message of type \<^verbatim>\<open>pong\<close> causes no dispatch at all, so it never reaches
  a message handler. If the handle of the heartbeat timeout is set, that timer is removed
  from the pending timers (all others stay) and the handle is cleared. If the handle is
  not set, the state is unchanged. If the timer of the handle is no longer pending (it has
  expired), nothing changes but the stale handle, which is cleared.
\<close>

theorem pong_consumed:
  assumes "mtype m = Some ''pong''"
  shows "emitted (step (Socket_message k (Parsed m)) s) = emitted s
       \<and> emitted (handleMessage (Parsed m) s) = emitted s
       \<and> (\<forall>t. heartbeatTimeoutTimer s = Some t \<longrightarrow>
             timers (handleMessage (Parsed m) s) = filter (\<lambda>p. fst p \<noteq> t) (timers s)
             \<and> map_of (timers (handleMessage (Parsed m) s)) t = None
             \<and> heartbeatTimeoutTimer (handleMessage (Parsed m) s) = None)
       \<and> (heartbeatTimeoutTimer s = None \<longrightarrow> handleMessage (Parsed m) s = s)
       \<and> ((\<forall>t. heartbeatTimeoutTimer s = Some t \<longrightarrow> map_of (timers s) t = None) \<longrightarrow>
             handleMessage (Parsed m) s = s\<lparr> heartbeatTimeoutTimer := None \<rparr>)"
proof -
  have hm: "handleMessage (Parsed m) s = handlePong s"
    using assms by (simp add: handleMessage_def)
  have quiet: "emitted (handlePong s) = emitted s"
    by (simp add: handlePong_def clearTimer_def split: option.splits)
  have ev: "emitted (step (Socket_message k (Parsed m)) s) = emitted s"
    using hm quiet by (simp add: step_def)
  have armed: "\<forall>t. heartbeatTimeoutTimer s = Some t \<longrightarrow>
             timers (handlePong s) = filter (\<lambda>p. fst p \<noteq> t) (timers s)
             \<and> map_of (timers (handlePong s)) t = None
             \<and> heartbeatTimeoutTimer (handlePong s) = None"
    by (auto simp add: handlePong_def clearTimer_def map_of_eq_None_iff)
  have none: "heartbeatTimeoutTimer s = None \<longrightarrow> handlePong s = s"
    by (simp add: handlePong_def)
  have stale: "(\<forall>t. heartbeatTimeoutTimer s = Some t \<longrightarrow> map_of (timers s) t = None) \<longrightarrow>
             handlePong s = s\<lparr> heartbeatTimeoutTimer := None \<rparr>"
  proof (cases "heartbeatTimeoutTimer s")
    case None
    then have "s\<lparr> heartbeatTimeoutTimer := None \<rparr> = s" by simp
    with None show ?thesis by (simp add: handlePong_def)
  next
    case (Some t)
    show ?thesis
    proof
      assume "\<forall>t. heartbeatTimeoutTimer s = Some t \<longrightarrow> map_of (timers s) t = None"
      with Some have "map_of (timers s) t = None" by simp
      then have "\<forall>p\<in>set (timers s). fst p \<noteq> t"
        by (auto simp add: map_of_eq_None_iff)
      then have "filter (\<lambda>p. fst p \<noteq> t) (timers s) = timers s"
        by (simp add: filter_id_conv)
      with Some show "handlePong s = s\<lparr> heartbeatTimeoutTimer := None \<rparr>"
        by (simp add: handlePong_def clearTimer_def)
    qed
  qed
  from ev quiet armed none stale show ?thesis
    unfolding hm by blast
qed

text \<open>A pong while timer 3 is pending removes it; a pong after timer 3 has expired leaves
  the timers, the sockets and the dispatches as they were.\<close>

theorem pong_consumed_witness:
  "mtype pong = Some ''pong''
   \<and> heartbeatTimeoutTimer awaiting_pong = Some 3
   \<and> timers awaiting_pong = [(2, HeartbeatInterval (Num 30000)), (3, HeartbeatTimeout (Num 5000))]
   \<and> timers (handleMessage (Parsed pong) awaiting_pong) = [(2, HeartbeatInterval (Num 30000))]
   \<and> emitted (handleMessage (Parsed pong) awaiting_pong) = emitted awaiting_pong
   \<and> heartbeatTimeoutTimer pong_overdue = Some 3 \<and> map_of (timers pong_overdue) 3 = None
   \<and> handleMessage (Parsed pong) pong_overdue = pong_overdue\<lparr> heartbeatTimeoutTimer := None \<rparr>"
  using pong_consumed [of pong 0 awaiting_pong] pong_consumed [of pong 0 pong_overdue]
  by (simp add: awaiting_pong_facts pong_overdue_facts)

subsection \<open>Exhausted reconnection attempts\<close>

lemma all_closed_readyStateOf:
  "list_all (\<lambda>x. readyState x = CLOSED) (sockets s) \<Longrightarrow> readyStateOf s k = CLOSED"
  by (simp add: readyStateOf_def list_all_length)

lemma all_closed_not_connected:
  "list_all (\<lambda>x. readyState x = CLOSED) (sockets s) \<Longrightarrow> \<not> isConnected s"
  by (simp add: isConnected_def all_closed_readyStateOf split: option.splits)

text \<open>In a settled state no socket event and no timer expiry changes the status, the
  sockets or the dispatches, and the state stays settled.\<close>

lemma settled_step:
  assumes "settled s" "automatic e"
  shows "settled (step e s) \<and> connectionStatus (step e s) = connectionStatus s
       \<and> sockets (step e s) = sockets s \<and> emitted (step e s) = emitted s"
proof -
  from assms(1) have st: "state (connectionStatus s) \<noteq> Connecting"
    and cl: "list_all (\<lambda>x. readyState x = CLOSED) (sockets s)"
    and tm: "list_all (\<lambda>p. \<not> isReconnectTimer (snd p)) (timers s)"
    by (simp_all add: settled_def)
  have rs: "\<And>k. readyStateOf s k = CLOSED"
    using cl by (rule all_closed_readyStateOf)
  show ?thesis
  proof (cases e)
    case (Timer_fires i)
    show ?thesis
    proof (cases "map_of (timers s) i")
      case None
      with Timer_fires assms(1) show ?thesis by (simp add: step_def)
    next
      case (Some t)
      then have "(i, t) \<in> set (timers s)" by (rule map_of_SomeD)
      with tm have nr: "\<not> isReconnectTimer t" by (auto simp add: list_all_iff)
      have "\<And>k. readyStateOf (clearTimer i s) k = readyStateOf s k"
        by (simp add: readyStateOf_def clearTimer_def)
      with rs have rs': "\<And>k. readyStateOf (clearTimer i s) k = CLOSED"
        by simp
      have tm': "list_all (\<lambda>p. \<not> isReconnectTimer (snd p)) (timers (clearTimer i s))"
        using tm by (simp add: clearTimer_def list_all_iff)
      have keep: "settled (clearTimer i s)"
        "connectionStatus (clearTimer i s) = connectionStatus s"
        "sockets (clearTimer i s) = sockets s" "emitted (clearTimer i s) = emitted s"
        using assms(1) tm' by (simp_all add: settled_def clearTimer_def)
      show ?thesis
      proof (cases t)
        case (ConnectionTimeout d)
        then have "step e s = clearTimer i s"
          using Timer_fires Some st
          by (simp add: step_def fire_def connectionTimeout_def clearTimer_def)
        with keep show ?thesis by simp
      next
        case (ReconnectTimer d)
        with nr show ?thesis by simp
      next
        case (HeartbeatInterval d)
        then have "step e s = s"
          using Timer_fires Some all_closed_not_connected [OF cl]
          by (simp add: step_def fire_def heartbeatTick_def)
        with assms(1) show ?thesis by simp
      next
        case (HeartbeatTimeout d)
        then have "step e s = clearTimer i s"
          using Timer_fires Some rs'
          by (simp add: step_def fire_def closeCurrent_def closeSocket_def split: option.splits)
        with keep show ?thesis by simp
      qed
    qed
  qed (use assms rs in \<open>simp_all add: step_def\<close>)
qed

lemma settled_run:
  "settled s \<Longrightarrow> list_all automatic es \<Longrightarrow>
   settled (run es s) \<and> connectionStatus (run es s) = connectionStatus s
   \<and> sockets (run es s) = sockets s \<and> emitted (run es s) = emitted s"
proof (induction es arbitrary: s)
  case Nil
  then show ?case by simp
next
  case (Cons e es)
  then have "settled (step e s) \<and> connectionStatus (step e s) = connectionStatus s
       \<and> sockets (step e s) = sockets s \<and> emitted (step e s) = emitted s"
    by (intro settled_step) simp_all
  moreover from this Cons have "settled (run es (step e s))
     \<and> connectionStatus (run es (step e s)) = connectionStatus (step e s)
     \<and> sockets (run es (step e s)) = sockets (step e s)
     \<and> emitted (run es (step e s)) = emitted (step e s)"
    by (intro Cons.IH) simp_all
  ultimately show ?case by simp
qed

lemma setReadyState_keeps [simp]:
  "config (setReadyState k r s) = config s" "ws (setReadyState k r s) = ws s"
  "timers (setReadyState k r s) = timers s" "nextTimer (setReadyState k r s) = nextTimer s"
  "isIntentionalClose (setReadyState k r s) = isIntentionalClose s"
  "heartbeatTimer (setReadyState k r s) = heartbeatTimer s"
  "heartbeatTimeoutTimer (setReadyState k r s) = heartbeatTimeoutTimer s"
  "reconnectAttempts (setReadyState k r s) = reconnectAttempts s"
  "openFailure (setReadyState k r s) = openFailure s"
  "connectionStatus (setReadyState k r s) = connectionStatus s"
  "emitted (setReadyState k r s) = emitted s"
  "length (sockets (setReadyState k r s)) = length (sockets s)"
  "reconnectTimer (setReadyState k r s) = reconnectTimer s"
  "apiKey (setReadyState k r s) = apiKey s"
  by (simp_all add: setReadyState_def)

text \<open>A closure event of a socket that is not closed, on a client that has not been
  disconnected: the heartbeat is stopped, \<^verbatim>\<open>reconnecting\<close> is dispatched, and
  \<^verbatim>\<open>handleReconnect\<close> runs.\<close>

lemma unintentional_closure:
  assumes "\<not> isIntentionalClose s" "k < length (sockets s)" "readyStateOf s k \<noteq> CLOSED"
  shows "step (Socket_close k) s =
           handleReconnect (updateConnectionStatus Reconnecting None None
             (stopHeartbeat (setReadyState k CLOSED s)))"
  using assms by (simp add: step_def handleClose_def Let_def)

lemma timers_stopHeartbeat_setReadyState:
  "timers (stopHeartbeat (setReadyState k r s)) = timers (stopHeartbeat s)"
  by (simp add: timers_stopHeartbeat)

text \<open>
  C5, as amended. With reconnection enabled, an unintentional closure that finds the
  reconnect counter below \<^verbatim>\<open>maxAttempts\<close> increments the counter by one and arms one
  reconnect timer, with the backoff delay of the new count (so when closures alone move
  the counter, the first \<^verbatim>\<open>maxAttempts\<close> of them each arm a timer).
  An unintentional closure that finds the counter at \<^verbatim>\<open>maxAttempts\<close> or above sets the
  status to \<^verbatim>\<open>error\<close> with the message \<^verbatim>\<open>Max reconnection attempts reached\<close> and arms no
  timer: it dispatches \<^verbatim>\<open>reconnecting\<close> and \<^verbatim>\<open>error\<close> and nothing else, and the pending
  timers are those that were pending before, less the heartbeat's. If after that closure
  no reconnect timer armed earlier is pending and no socket of the client is live, then
  whatever socket events and timer expiries follow, nothing leaves the client (no timer is
  started, no status is dispatched, so \<^verbatim>\<open>connect\<close> does not run), no socket is created and
  the status stays \<^verbatim>\<open>error\<close>, until a caller acts.
\<close>

theorem closure_counts_then_errors:
  assumes "reconnect_enabled (config s)" and "\<not> isIntentionalClose s"
    and "k < length (sockets s)" and "readyStateOf s k \<noteq> CLOSED"
  shows "let s' = step (Socket_close k) s;
             reconnecting = ConnectionChange
               \<lparr> state = Reconnecting, error = None, reconnectAttempt = None,
                 lastConnected = lastConnected (connectionStatus s) \<rparr>;
             delay = specified_delay (config s) (Suc (reconnectAttempts s))
         in (\<not> js_le (reconnect_maxAttempts (config s)) (Num (real (reconnectAttempts s))) \<longrightarrow>
               reconnectAttempts s' = Suc (reconnectAttempts s)
               \<and> connectionStatus s' =
                   \<lparr> state = Reconnecting, error = None,
                     reconnectAttempt = Some (Suc (reconnectAttempts s)),
                     lastConnected = lastConnected (connectionStatus s) \<rparr>
               \<and> timers s' = timers (stopHeartbeat s) @ [(nextTimer s, ReconnectTimer delay)]
               \<and> emitted s' =
                   emitted s @ [reconnecting, TimerStarted (nextTimer s) (ReconnectTimer delay),
                                ConnectionChange (connectionStatus s')])
          \<and> (js_le (reconnect_maxAttempts (config s)) (Num (real (reconnectAttempts s))) \<longrightarrow>
               connectionStatus s' =
                   \<lparr> state = Error, error = Some ''Max reconnection attempts reached'',
                     reconnectAttempt = None,
                     lastConnected = lastConnected (connectionStatus s) \<rparr>
               \<and> reconnectAttempts s' = reconnectAttempts s
               \<and> timers s' = timers (stopHeartbeat s)
               \<and> emitted s' = emitted s @ [reconnecting, ConnectionChange (connectionStatus s')]
               \<and> (list_all (\<lambda>p. \<not> isReconnectTimer (snd p)) (timers s')
                    \<and> list_all (\<lambda>x. readyState x = CLOSED) (sockets s')
                    \<and> list_all automatic es \<longrightarrow>
                  emitted (run es s') = emitted s'
                  \<and> sockets (run es s') = sockets s'
                  \<and> connectionStatus (run es s') = connectionStatus s'
                  \<and> list_all (\<lambda>p. \<not> isReconnectTimer (snd p)) (timers (run es s'))))"
proof -
  define u where "u = updateConnectionStatus Reconnecting None None
                        (stopHeartbeat (setReadyState k CLOSED s))"
  define s' where "s' = step (Socket_close k) s"
  have s': "s' = handleReconnect u"
    unfolding s'_def u_def using assms(2,3,4) by (rule unintentional_closure)
  have u: "config u = config s" "reconnectAttempts u = reconnectAttempts s"
    "isIntentionalClose u = isIntentionalClose s" "nextTimer u = nextTimer s"
    "timers u = timers (stopHeartbeat s)"
    "emitted u = emitted s @
       [ConnectionChange \<lparr> state = Reconnecting, error = None, reconnectAttempt = None,
                           lastConnected = lastConnected (connectionStatus s) \<rparr>]"
    "lastConnected (connectionStatus u) = lastConnected (connectionStatus s)"
    by (simp_all add: u_def updateConnectionStatus_def Let_def timers_stopHeartbeat_setReadyState)
  have below: "reconnectAttempts s' = Suc (reconnectAttempts s)
       \<and> connectionStatus s' =
           \<lparr> state = Reconnecting, error = None,
             reconnectAttempt = Some (Suc (reconnectAttempts s)),
             lastConnected = lastConnected (connectionStatus s) \<rparr>
       \<and> timers s' = timers (stopHeartbeat s) @
           [(nextTimer s, ReconnectTimer (specified_delay (config s) (Suc (reconnectAttempts s))))]
       \<and> emitted s' =
           emitted s @
             [ConnectionChange \<lparr> state = Reconnecting, error = None, reconnectAttempt = None,
                                 lastConnected = lastConnected (connectionStatus s) \<rparr>,
              TimerStarted (nextTimer s)
                (ReconnectTimer (specified_delay (config s) (Suc (reconnectAttempts s)))),
              ConnectionChange (connectionStatus s')]"
    if "\<not> js_le (reconnect_maxAttempts (config s)) (Num (real (reconnectAttempts s)))"
  proof -
    have "handleReconnect u =
           updateConnectionStatus Reconnecting None (Some (Suc (reconnectAttempts u)))
             ((setTimer (ReconnectTimer (specified_delay (config u) (Suc (reconnectAttempts u))))
                (u\<lparr> reconnectAttempts := Suc (reconnectAttempts u) \<rparr>))
              \<lparr> reconnectTimer := Some (nextTimer u) \<rparr>)"
      using assms(1,2) that by (intro handleReconnect_arming) (simp_all add: u)
    then show ?thesis
      by (simp add: s' u updateConnectionStatus_def setTimer_def Let_def)
  qed
  have reached: "connectionStatus s' =
           \<lparr> state = Error, error = Some ''Max reconnection attempts reached'',
             reconnectAttempt = None, lastConnected = lastConnected (connectionStatus s) \<rparr>
       \<and> reconnectAttempts s' = reconnectAttempts s
       \<and> timers s' = timers (stopHeartbeat s)
       \<and> emitted s' =
           emitted s @
             [ConnectionChange \<lparr> state = Reconnecting, error = None, reconnectAttempt = None,
                                 lastConnected = lastConnected (connectionStatus s) \<rparr>,
              ConnectionChange (connectionStatus s')]"
    if "js_le (reconnect_maxAttempts (config s)) (Num (real (reconnectAttempts s)))"
  proof -
    have "handleReconnect u =
            updateConnectionStatus Error (Some ''Max reconnection attempts reached'') None u"
      using assms(1,2) that by (simp add: handleReconnect_def u)
    then show ?thesis
      by (simp add: s' u updateConnectionStatus_def Let_def)
  qed
  have after: "emitted (run es s') = emitted s' \<and> sockets (run es s') = sockets s'
       \<and> connectionStatus (run es s') = connectionStatus s'
       \<and> list_all (\<lambda>p. \<not> isReconnectTimer (snd p)) (timers (run es s'))"
    if "js_le (reconnect_maxAttempts (config s)) (Num (real (reconnectAttempts s)))"
      and "list_all (\<lambda>p. \<not> isReconnectTimer (snd p)) (timers s')"
      and "list_all (\<lambda>x. readyState x = CLOSED) (sockets s')"
      and "list_all automatic es"
  proof -
    have "state (connectionStatus s') \<noteq> Connecting"
      using reached [OF that(1)] by simp
    then have "settled s'"
      using that(2,3) by (simp add: settled_def)
    then have "settled (run es s') \<and> connectionStatus (run es s') = connectionStatus s'
       \<and> sockets (run es s') = sockets s' \<and> emitted (run es s') = emitted s'"
      using that(4) by (rule settled_run)
    then show ?thesis by (simp add: settled_def)
  qed
  from below reached after show ?thesis
    unfolding Let_def s'_def [symmetric] by blast
qed

lemma fifth_attempt_facts:
  "reconnect_enabled (config (run fifth_attempt offline))"
  "\<not> isIntentionalClose (run fifth_attempt offline)"
  "reconnect_maxAttempts (config (run fifth_attempt offline)) = Num 4"
  "reconnectAttempts (run fifth_attempt offline) = 4"
  "map readyState (sockets (run fifth_attempt offline)) =
     [CLOSED, CLOSED, CLOSED, CLOSED, CONNECTING]"
  "timers (run fifth_attempt offline) =
     [(3, ConnectionTimeout (Num 10000)), (5, ConnectionTimeout (Num 10000)),
      (7, ConnectionTimeout (Num 10000)), (9, ConnectionTimeout (Num 10000))]"
  "heartbeatTimer (run fifth_attempt offline) = None"
  "heartbeatTimeoutTimer (run fifth_attempt offline) = None"
  "lastConnected (connectionStatus (run fifth_attempt offline)) = None"
  by (simp_all add: fifth_attempt_def four_closures_def offline_def example_config_def
        client_defs number_defs)

lemma fifth_closure_facts:
  "map readyState (sockets (step (Socket_close 4) (run fifth_attempt offline))) =
     [CLOSED, CLOSED, CLOSED, CLOSED, CLOSED]"
  "timers (step (Socket_close 4) (run fifth_attempt offline)) =
     [(3, ConnectionTimeout (Num 10000)), (5, ConnectionTimeout (Num 10000)),
      (7, ConnectionTimeout (Num 10000)), (9, ConnectionTimeout (Num 10000))]"
  by (simp_all add: fifth_attempt_def four_closures_def offline_def example_config_def
        client_defs number_defs)

lemma connect_offline_facts:
  "reconnect_enabled (config (connect offline))" "\<not> isIntentionalClose (connect offline)"
  "reconnect_maxAttempts (config (connect offline)) = Num 4"
  "reconnectAttempts (connect offline) = 0"
  "map readyState (sockets (connect offline)) = [CONNECTING]"
  "timers (connect offline) = [(1, ConnectionTimeout (Num 10000))]"
  "nextTimer (connect offline) = 2"
  "heartbeatTimer (connect offline) = None" "heartbeatTimeoutTimer (connect offline) = None"
  "specified_delay (config (connect offline)) (Suc 0) = Num 1000"
  by (simp_all add: offline_def example_config_def client_defs specified_delay_def number_defs)

text \<open>The first closure after \<^verbatim>\<open>connect\<close> counts one and arms a timer of 1000. In the
  scenario of the specification (four attempts; the first connection timeout expires
  during the last wait) the fifth closure gives \<^verbatim>\<open>error\<close>, and the expiry of stale
  connection timeouts and a second close event of the first socket change nothing.\<close>

theorem closure_counts_then_errors_witness:
  "reconnect_enabled (config (connect offline)) \<and> \<not> isIntentionalClose (connect offline)
   \<and> 0 < length (sockets (connect offline)) \<and> readyStateOf (connect offline) 0 \<noteq> CLOSED
   \<and> \<not> js_le (reconnect_maxAttempts (config (connect offline)))
              (Num (real (reconnectAttempts (connect offline))))
   \<and> reconnectAttempts (step (Socket_close 0) (connect offline)) = 1
   \<and> timers (step (Socket_close 0) (connect offline)) =
       [(1, ConnectionTimeout (Num 10000)), (2, ReconnectTimer (Num 1000))]
   \<and> reconnect_enabled (config (run fifth_attempt offline))
   \<and> \<not> isIntentionalClose (run fifth_attempt offline)
   \<and> 4 < length (sockets (run fifth_attempt offline))
   \<and> readyStateOf (run fifth_attempt offline) 4 \<noteq> CLOSED
   \<and> js_le (reconnect_maxAttempts (config (run fifth_attempt offline)))
           (Num (real (reconnectAttempts (run fifth_attempt offline))))
   \<and> list_all (\<lambda>p. \<not> isReconnectTimer (snd p))
        (timers (step (Socket_close 4) (run fifth_attempt offline)))
   \<and> list_all (\<lambda>x. readyState x = CLOSED)
        (sockets (step (Socket_close 4) (run fifth_attempt offline)))
   \<and> list_all automatic [Timer_fires 3, Socket_close 0, Timer_fires 9]
   \<and> connectionStatus (step (Socket_close 4) (run fifth_attempt offline)) =
       \<lparr> state = Error, error = Some ''Max reconnection attempts reached'',
         reconnectAttempt = None, lastConnected = None \<rparr>
   \<and> connectionStatus
        (run [Timer_fires 3, Socket_close 0, Timer_fires 9]
           (step (Socket_close 4) (run fifth_attempt offline))) =
       \<lparr> state = Error, error = Some ''Max reconnection attempts reached'',
         reconnectAttempt = None, lastConnected = None \<rparr>
   \<and> emitted
        (run [Timer_fires 3, Socket_close 0, Timer_fires 9]
           (step (Socket_close 4) (run fifth_attempt offline))) =
       emitted (step (Socket_close 4) (run fifth_attempt offline))"
proof -
  have len: "length (sockets (run fifth_attempt offline)) = 5"
    "length (sockets (connect offline)) = 1"
    using arg_cong [OF fifth_attempt_facts(5), of length]
      arg_cong [OF connect_offline_facts(5), of length] by simp_all
  have rs: "readyStateOf (run fifth_attempt offline) 4 = CONNECTING"
    "readyStateOf (connect offline) 0 = CONNECTING"
    using arg_cong [OF fifth_attempt_facts(5), of "\<lambda>xs. xs ! 4"]
      arg_cong [OF connect_offline_facts(5), of "\<lambda>xs. xs ! 0"]
    by (simp_all add: readyStateOf_def len)
  have cl: "list_all (\<lambda>x. readyState x = CLOSED)
              (sockets (step (Socket_close 4) (run fifth_attempt offline)))"
    using fifth_closure_facts(1) by (simp add: list_all_iff map_eq_Cons_conv) auto
  have first: "reconnectAttempts (step (Socket_close 0) (connect offline)) = 1
     \<and> timers (step (Socket_close 0) (connect offline)) =
         [(1, ConnectionTimeout (Num 10000)), (2, ReconnectTimer (Num 1000))]"
    using closure_counts_then_errors
        [where s = "connect offline" and k = 0 and es = "[]"]
    by (simp add: Let_def connect_offline_facts len rs timers_stopHeartbeat)
  have fifth: "connectionStatus (step (Socket_close 4) (run fifth_attempt offline)) =
       \<lparr> state = Error, error = Some ''Max reconnection attempts reached'',
         reconnectAttempt = None, lastConnected = None \<rparr>
     \<and> connectionStatus
        (run [Timer_fires 3, Socket_close 0, Timer_fires 9]
           (step (Socket_close 4) (run fifth_attempt offline))) =
       \<lparr> state = Error, error = Some ''Max reconnection attempts reached'',
         reconnectAttempt = None, lastConnected = None \<rparr>
     \<and> emitted
        (run [Timer_fires 3, Socket_close 0, Timer_fires 9]
           (step (Socket_close 4) (run fifth_attempt offline))) =
       emitted (step (Socket_close 4) (run fifth_attempt offline))"
    using closure_counts_then_errors
        [where s = "run fifth_attempt offline" and k = 4
           and es = "[Timer_fires 3, Socket_close 0, Timer_fires 9]"]
      cl
    by (simp add: Let_def fifth_attempt_facts fifth_closure_facts len rs del: run_Cons)
  show ?thesis
    using first fifth cl
    by (simp add: connect_offline_facts fifth_attempt_facts fifth_closure_facts len rs
          del: run_Cons)
qed

text \<open>With \<^verbatim>\<open>maxAttempts = 4\<close>, after the fourth consecutive closure the status is
  \<^verbatim>\<open>reconnecting\<close> (attempt 4) and a reconnect timer of 5000 is pending.\<close>

theorem fourth_closure_rearms:
  "reconnect_maxAttempts (config offline) = Num 4
   \<and> connectionStatus (run four_closures offline) =
       \<lparr> state = Reconnecting, error = None, reconnectAttempt = Some 4, lastConnected = None \<rparr>
   \<and> timers (run four_closures offline) =
       [(1, ConnectionTimeout (Num 10000)), (3, ConnectionTimeout (Num 10000)),
        (5, ConnectionTimeout (Num 10000)), (7, ConnectionTimeout (Num 10000)),
        (8, ReconnectTimer (Num 5000))]"
  by (simp add: four_closures_def offline_def example_config_def client_defs number_defs)

subsection \<open>Disconnecting\<close>

text \<open>What \<^verbatim>\<open>disconnect\<close> does at once, in every state: the three timers whose handles the
  client holds are no longer pending, the handles and \<^verbatim>\<open>this.ws\<close> are cleared, and the status
  is \<^verbatim>\<open>disconnected\<close>.\<close>

lemma disconnect_at_once:
  "connectionStatus (disconnect s) =
     \<lparr> state = Disconnected, error = None, reconnectAttempt = None,
       lastConnected = lastConnected (connectionStatus s) \<rparr>"
  "ws (disconnect s) = None" "isIntentionalClose (disconnect s)"
  "reconnectTimer (disconnect s) = None" "heartbeatTimer (disconnect s) = None"
  "heartbeatTimeoutTimer (disconnect s) = None"
  "timers (disconnect s) =
     filter (\<lambda>p. Some (fst p) \<noteq> heartbeatTimer s \<and> Some (fst p) \<noteq> heartbeatTimeoutTimer s
                 \<and> Some (fst p) \<noteq> reconnectTimer s) (timers s)"
  by (auto simp add: disconnect_def cleanup_def updateConnectionStatus_def Let_def
        timers_stopHeartbeat clearTimer_def closeSocket_def setReadyState_def
        split: option.splits intro: filter_cong)

text \<open>
  C6, at a failing input. \<^verbatim>\<open>connect\<close>; the connection timeout expires while the socket
  is connecting (its callback closes the socket and calls \<^verbatim>\<open>handleReconnect\<close>, which arms
  timer 2); the close event arrives (\<^verbatim>\<open>handleReconnect\<close> again, which arms timer 3 and
  overwrites the handle); \<^verbatim>\<open>disconnect\<close>. The status is \<^verbatim>\<open>disconnected\<close> and the handle
  is cleared, but timer 2 is still pending; when it expires \<^verbatim>\<open>connect\<close> runs, the status
  is \<^verbatim>\<open>connecting\<close> and a new socket exists.
\<close>

theorem disconnect_leaves_reconnect_timer:
  "state (connectionStatus (run timeout_then_disconnect offline)) = Disconnected
   \<and> reconnectTimer (run timeout_then_disconnect offline) = None
   \<and> timers (run timeout_then_disconnect offline) = [(2, ReconnectTimer (Num 1000))]
   \<and> state (connectionStatus (run (timeout_then_disconnect @ [Timer_fires 2]) offline))
       = Connecting
   \<and> map readyState (sockets (run (timeout_then_disconnect @ [Timer_fires 2]) offline))
       = [CLOSED, CONNECTING]"
  by (simp add: timeout_then_disconnect_def offline_def example_config_def client_defs
        number_defs)

subsection \<open>One transport at a time\<close>

text \<open>With an open transport \<^verbatim>\<open>connect\<close> does nothing.\<close>

lemma connect_when_open: "isConnected s \<Longrightarrow> connect s = s"
  by (simp add: connect_def)

text \<open>
  C9, at a failing input. \<^verbatim>\<open>connect\<close> called twice in a row: the first socket is still
  connecting, so the guard (which looks for an open socket only) lets the second call
  create a second socket; both are live, and \<^verbatim>\<open>this.ws\<close> holds the second. If both open
  and the caller disconnects, the first socket stays open.
\<close>

theorem second_connect_second_socket:
  "map readyState (sockets (run [Call_connect, Call_connect] offline)) = [CONNECTING, CONNECTING]
   \<and> ws (run [Call_connect, Call_connect] offline) = Some 1
   \<and> map readyState
        (sockets (run [Call_connect, Call_connect, Socket_open 0, Socket_open 1,
                       Call_disconnect] offline)) = [OPEN, CLOSING]"
  by (simp add: offline_def example_config_def client_defs)


end
